theory Spec2Isabelle
  imports Complex_Main
begin

section \<open>Numbers, vectors and anchors\<close>

text \<open>
  The editor is written in TypeScript. A JavaScript \<^verbatim>\<open>number\<close> is modelled as a
  \<^typ>\<open>real\<close>: arithmetic is exact, and there is no NaN and no Infinity. Where the
  source divides, the model divides with \<open>js_divide\<close>, which reports a zero divisor
  as \<open>NonFinite\<close> instead of returning HOL's \<open>x / 0 = 0\<close>: JavaScript does not raise
  there, it goes on with NaN or an infinity, a value this model does not have.

  \<open>TypeError\<close> is what JavaScript raises when the source destructures or indexes
  \<^verbatim>\<open>undefined\<close>; \<open>PreconditionError\<close> is the string the source throws,
  \<^verbatim>\<open>`Attempting to process a control without a paired anchor.`\<close>.

  \<open>UndefinedValue\<close> stands where the source has \<^verbatim>\<open>undefined\<close> in the place of a
  number. It is not raised either: JavaScript goes on and stores \<^verbatim>\<open>undefined\<close> as
  the coordinate, a value this model does not have.
\<close>

datatype error = TypeError | PreconditionError | NonFinite | UndefinedValue

definition js_divide :: "real \<Rightarrow> real \<Rightarrow> error + real" where
  "js_divide a b = (if b = 0 then Inl NonFinite else Inr (a / b))"

text \<open>
  \<^verbatim>\<open>type Vector = { x: number; y: number }\<close>. The fields are named \<open>vx\<close> and
  \<open>vy\<close>. An anchor is the tuple \<^verbatim>\<open>[position, controls?]\<close>, with
  \<^verbatim>\<open>controls = { pre?: Vector; post?: Vector }\<close>.
\<close>

record Vector =
  vx :: real
  vy :: real

record Controls =
  pre :: "Vector option"
  post :: "Vector option"

type_synonym Anchor = "Vector \<times> Controls option"

type_synonym Anchors = "Anchor list"

datatype ControlType = Pre | Post

text \<open>
  Modelled from the spec: the vector helpers of \<^verbatim>\<open>./lib/vector\<close>
  (\<^verbatim>\<open>add\<close>, \<^verbatim>\<open>subtract\<close>, \<^verbatim>\<open>multiply\<close>, \<^verbatim>\<open>divide\<close>), which the
  spec describes as component-wise with no error condition. \<^verbatim>\<open>multiply\<close> is
  called with a scalar, \<^verbatim>\<open>divide\<close> with the zoom vector.
\<close>

definition addVector :: "Vector \<Rightarrow> Vector \<Rightarrow> Vector" where
  "addVector a b = \<lparr>vx = vx a + vx b, vy = vy a + vy b\<rparr>"

definition subtractVector :: "Vector \<Rightarrow> Vector \<Rightarrow> Vector" where
  "subtractVector a b = \<lparr>vx = vx a - vx b, vy = vy a - vy b\<rparr>"

definition multiplyVector :: "Vector \<Rightarrow> real \<Rightarrow> Vector" where
  "multiplyVector a k = \<lparr>vx = vx a * k, vy = vy a * k\<rparr>"

definition divideVector :: "Vector \<Rightarrow> Vector \<Rightarrow> error + Vector" where
  "divideVector a b =
     (case js_divide (vx a) (vx b) of
        Inl e \<Rightarrow> Inl e
      | Inr qx \<Rightarrow>
          (case js_divide (vy a) (vy b) of
             Inl e \<Rightarrow> Inl e
           | Inr qy \<Rightarrow> Inr \<lparr>vx = qx, vy = qy\<rparr>))"

subsection \<open>JavaScript arrays\<close>

text \<open>
  \<^verbatim>\<open>xs[i]\<close> is \<^verbatim>\<open>undefined\<close> out of range (\<open>None\<close>), also at \<open>i = -1\<close>.
  \<^verbatim>\<open>findIndex\<close> returns \<open>-1\<close> when no element satisfies the predicate.
  \<^verbatim>\<open>splice(start, deleteCount, ...items)\<close> never raises: a negative \<open>start\<close>
  counts from the end, and both numbers are clamped to the array.
\<close>

definition at_index :: "'a list \<Rightarrow> int \<Rightarrow> 'a option" where
  "at_index xs i = (if 0 \<le> i \<and> i < int (length xs) then Some (xs ! nat i) else None)"

fun findIndex :: "('a \<Rightarrow> bool) \<Rightarrow> 'a list \<Rightarrow> int" where
  "findIndex P [] = -1"
| "findIndex P (a # as) =
     (if P a then 0 else (let i = findIndex P as in if i = -1 then -1 else i + 1))"

definition spliceArray :: "int \<Rightarrow> int \<Rightarrow> 'a list \<Rightarrow> 'a list \<Rightarrow> 'a list" where
  "spliceArray start deleteCount items xs =
     (let len = int (length xs);
          actualStart = (if start < 0 then max (len + start) 0 else min start len);
          actualDeleteCount = min (max deleteCount 0) (len - actualStart)
      in take (nat actualStart) xs @ items @ drop (nat (actualStart + actualDeleteCount)) xs)"

section \<open>The anchor store: \<^verbatim>\<open>createTimeline\<close>\<close>

subsection \<open>Store writes\<close>

text \<open>
  \<open>controlOf controls type\<close> reads \<^verbatim>\<open>controls?.[type]\<close>, and
  \<open>withControl controls type h\<close> is \<^verbatim>\<open>{...controls, [type]: h}\<close>: the other
  field of \<open>controls\<close> is kept, and \<^verbatim>\<open>undefined\<close> spreads as the empty object.
\<close>

definition controlOf :: "Controls option \<Rightarrow> ControlType \<Rightarrow> Vector option" where
  "controlOf relativeControls type =
     (case relativeControls of
        None \<Rightarrow> None
      | Some c \<Rightarrow> (case type of Pre \<Rightarrow> pre c | Post \<Rightarrow> post c))"

definition withControl :: "Controls option \<Rightarrow> ControlType \<Rightarrow> Vector \<Rightarrow> Controls" where
  "withControl controls type h =
     (case controls of
        None \<Rightarrow> (case type of Pre \<Rightarrow> \<lparr>pre = Some h, post = None\<rparr>
                              | Post \<Rightarrow> \<lparr>pre = None, post = Some h\<rparr>)
      | Some c \<Rightarrow> (case type of Pre \<Rightarrow> c\<lparr>pre := Some h\<rparr> | Post \<Rightarrow> c\<lparr>post := Some h\<rparr>))"

text \<open>
  \<^verbatim>\<open>setAnchors(index, 0, position)\<close> and \<^verbatim>\<open>setAnchors(index, 1, type, control)\<close>
  are path writes of the store setter of solid-js: they walk the path and raise a
  TypeError when a step of it is \<^verbatim>\<open>undefined\<close>.
\<close>

definition setAnchors_position :: "int \<Rightarrow> Vector \<Rightarrow> Anchors \<Rightarrow> error + Anchors" where
  "setAnchors_position index position anchors =
     (case at_index anchors index of
        None \<Rightarrow> Inl TypeError
      | Some (p, c) \<Rightarrow> Inr (anchors[nat index := (position, c)]))"

definition setAnchors_control ::
  "int \<Rightarrow> ControlType \<Rightarrow> Vector \<Rightarrow> Anchors \<Rightarrow> error + Anchors" where
  "setAnchors_control index type control anchors =
     (case at_index anchors index of
        None \<Rightarrow> Inl TypeError
      | Some (p, None) \<Rightarrow> Inl TypeError
      | Some (p, Some c) \<Rightarrow>
          Inr (anchors[nat index := (p, Some (withControl (Some c) type control))]))"

subsection \<open>\<^verbatim>\<open>absoluteAnchors\<close>\<close>

text \<open>
  The callback given to \<^verbatim>\<open>createIndexMemo\<close>. \<^verbatim>\<open>relativeControls?.pre\<close> is
  \<^verbatim>\<open>undefined\<close> when the anchor has no controls object; \<^verbatim>\<open>if (pre)\<close> tests that
  the descriptor exists. \<^verbatim>\<open>anchors[index - 1][0]\<close> raises a TypeError when there
  is no anchor at \<open>index - 1\<close>, and \<^verbatim>\<open>anchors[index + 1][0]\<close> likewise.
\<close>

definition absoluteAnchor :: "Anchors \<Rightarrow> Anchor \<Rightarrow> int \<Rightarrow> error + Anchor" where
  "absoluteAnchor anchors a index =
     (case a of (point, relativeControls) \<Rightarrow>
        (case (case controlOf relativeControls Pre of
                 None \<Rightarrow> Inr None
               | Some r \<Rightarrow>
                   (case at_index anchors (index - 1) of
                      None \<Rightarrow> Inl TypeError
                    | Some (prev, _) \<Rightarrow>
                        (let deltaX = vx point - vx prev
                         in Inr (Some (addVector point
                                  \<lparr>vx = deltaX * vx r * -1, vy = vy r\<rparr>))))) of
           Inl e \<Rightarrow> Inl e
         | Inr controls_pre \<Rightarrow>
             (case (case controlOf relativeControls Post of
                      None \<Rightarrow> Inr None
                    | Some r \<Rightarrow>
                        (case at_index anchors (index + 1) of
                           None \<Rightarrow> Inl TypeError
                         | Some (next, _) \<Rightarrow>
                             (let deltaX = vx next - vx point
                              in Inr (Some (addVector point
                                       \<lparr>vx = deltaX * vx r, vy = vy r\<rparr>))))) of
                Inl e \<Rightarrow> Inl e
              | Inr controls_post \<Rightarrow>
                  Inr (point, Some \<lparr>pre = controls_pre, post = controls_post\<rparr>))))"

text \<open>
  Modelled from the spec: \<^verbatim>\<open>createIndexMemo\<close> of \<^verbatim>\<open>./utils/create-index-memo\<close>,
  which the spec describes as a pure recomputation pass over an index-addressable
  array, the result as long as the stored sequence. Reading the derived array raises
  when the callback raises for one of its elements.
\<close>

fun sequence :: "(error + 'a) list \<Rightarrow> error + 'a list" where
  "sequence [] = Inr []"
| "sequence (r # rs) =
     (case r of
        Inl e \<Rightarrow> Inl e
      | Inr v \<Rightarrow> (case sequence rs of Inl e \<Rightarrow> Inl e | Inr vs \<Rightarrow> Inr (v # vs)))"

definition createIndexMemo :: "'a list \<Rightarrow> ('a \<Rightarrow> int \<Rightarrow> error + 'b) \<Rightarrow> error + 'b list" where
  "createIndexMemo xs f = sequence (map (\<lambda>i. f (xs ! i) (int i)) [0..<length xs])"

definition absoluteAnchors :: "Anchors \<Rightarrow> error + Anchors" where
  "absoluteAnchors anchors = createIndexMemo anchors (absoluteAnchor anchors)"

text \<open>
  The stores in which each descriptor has the neighbour it is relative to: no \<open>pre\<close>
  on the first anchor and no \<open>post\<close> on the last one.
\<close>

definition descriptorsPaired :: "Anchors \<Rightarrow> bool" where
  "descriptorsPaired anchors =
     (\<forall>i < length anchors.
        (controlOf (snd (anchors ! i)) Pre \<noteq> None \<longrightarrow> 0 < i)
        \<and> (controlOf (snd (anchors ! i)) Post \<noteq> None \<longrightarrow> Suc i < length anchors))"

subsection \<open>\<^verbatim>\<open>deleteAnchor\<close>\<close>

text \<open>\<^verbatim>\<open>anchors.splice(index, 1)\<close> inside \<^verbatim>\<open>produce\<close>.\<close>

definition deleteAnchor :: "int \<Rightarrow> Anchors \<Rightarrow> Anchors" where
  "deleteAnchor index anchors = spliceArray index 1 [] anchors"

subsection \<open>Time order\<close>

text \<open>The time invariant of the data model: anchors strictly increasing in \<open>x\<close>.\<close>

definition anchorTimes :: "Anchors \<Rightarrow> real list" where
  "anchorTimes anchors = map (\<lambda>a. vx (fst a)) anchors"

definition timeSorted :: "Anchors \<Rightarrow> bool" where
  "timeSorted anchors = sorted_wrt (<) (anchorTimes anchors)"

text \<open>
  The number of leading anchors that are not after \<open>time\<close>: in a time-sorted store,
  the index of the first anchor with \<open>x > time\<close>, and the length of the store when
  there is none.
\<close>

definition insertionIndex :: "real \<Rightarrow> Anchors \<Rightarrow> nat" where
  "insertionIndex time anchors = length (takeWhile (\<lambda>a. vx (fst a) \<le> time) anchors)"

section \<open>The timeline component\<close>

text \<open>
  The repository holds the component in an earlier version
  (\<^verbatim>\<open>src/create-timeline.tsx\<close>: \<^verbatim>\<open>Handle\<close> calls back on every pointer move, and
  \<^verbatim>\<open>onAnchorChange\<close> and \<^verbatim>\<open>onPositionChange\<close> write the store) and in a later one
  (two files: \<^verbatim>\<open>onControlDragStart\<close> and \<^verbatim>\<open>onPositionDragStart\<close> run the whole
  drag, with \<^verbatim>\<open>absoluteToRelativeControl\<close>). Both are modelled.

  The handlers below read \<^verbatim>\<open>props.absoluteAnchors\<close> (the derived anchors, a
  parameter named \<open>absAnchors\<close>) and write the store through \<^verbatim>\<open>setAnchors\<close>.
  A handler returns the exception it raised, if any, and the store as it is when
  the handler is left. With \<open>NonFinite\<close> the model stops at the division: the store
  returned is the store before it.
\<close>

subsection \<open>Earlier version: \<^verbatim>\<open>Handle\<close>, \<^verbatim>\<open>Anchor\<close>, \<^verbatim>\<open>onAnchorChange\<close>, \<^verbatim>\<open>onPositionChange\<close>\<close>

datatype Axis = AxisX | AxisY

definition component :: "Vector \<Rightarrow> Axis \<Rightarrow> real" where
  "component v type = (case type of AxisX \<Rightarrow> vx v | AxisY \<Rightarrow> vy v)"

text \<open>
  \<^verbatim>\<open>unproject(point, type)\<close> for a vector argument. In this version the component
  fixes \<^verbatim>\<open>zoom().x\<close> to \<open>1\<close> and \<^verbatim>\<open>origin().x\<close> to \<open>0\<close>; \<open>origin\<close> and \<open>zoom\<close>
  are parameters of the model.
\<close>

definition unproject :: "Vector \<Rightarrow> Vector \<Rightarrow> Vector \<Rightarrow> Axis \<Rightarrow> error + real" where
  "unproject origin zoom point type =
     js_divide (component point type - component origin type) (component zoom type)"

definition onAnchorChange ::
  "Vector \<Rightarrow> Vector \<Rightarrow> Anchors \<Rightarrow> ControlType \<Rightarrow> int \<Rightarrow> Vector \<Rightarrow> Anchors
     \<Rightarrow> error option \<times> Anchors" where
  "onAnchorChange origin zoom absAnchors type index position anchors =
     (case at_index absAnchors index of
        None \<Rightarrow> (Some TypeError, anchors)
      | Some (point, _) \<Rightarrow>
          (case at_index absAnchors (if type = Post then index + 1 else index - 1) of
             None \<Rightarrow> (Some TypeError, anchors)
           | Some (connectedPoint, _) \<Rightarrow>
               (case unproject origin zoom position AxisX of
                  Inl e \<Rightarrow> (Some e, anchors)
                | Inr absoluteX \<Rightarrow>
                    (let absoluteX1 =
                           (if (type = Post \<and> vx connectedPoint < absoluteX)
                               \<or> (type \<noteq> Post \<and> vx connectedPoint > absoluteX)
                            then vx connectedPoint else absoluteX);
                         absoluteX2 =
                           (if (type = Post \<and> absoluteX1 < vx point)
                               \<or> (type \<noteq> Post \<and> absoluteX1 > vx point)
                            then vx point else absoluteX1);
                         deltaX = \<bar>vx point - vx connectedPoint\<bar>
                     in (case js_divide \<bar>vx point - absoluteX2\<bar> deltaX of
                           Inl e \<Rightarrow> (Some e, anchors)
                         | Inr rx \<Rightarrow>
                             (case setAnchors_control index type
                                     \<lparr>vx = rx, vy = of_int \<lfloor>vy position - vy point\<rfloor>\<rparr>
                                     anchors of
                                Inl e \<Rightarrow> (Some e, anchors)
                              | Inr anchors' \<Rightarrow> (None, anchors')))))))"

definition onPositionChange :: "Anchors \<Rightarrow> int \<Rightarrow> Vector \<Rightarrow> Anchors \<Rightarrow> error option \<times> Anchors" where
  "onPositionChange absAnchors index position anchors =
     (let prev = map_option fst (at_index absAnchors (index - 1));
          next = map_option fst (at_index absAnchors (index + 1));
          position1 =
            (case prev of
               None \<Rightarrow> position
             | Some p \<Rightarrow> if vx position - 1 < vx p then position\<lparr>vx := vx p + 1\<rparr> else position);
          position2 =
            (case next of
               None \<Rightarrow> position1
             | Some n \<Rightarrow> if vx position1 + 1 > vx n then position1\<lparr>vx := vx n - 1\<rparr> else position1)
      in (case setAnchors_position index position2 anchors of
            Inl e \<Rightarrow> (Some e, anchors)
          | Inr anchors' \<Rightarrow> (None, anchors')))"

text \<open>
  The callback \<^verbatim>\<open>Handle\<close> gives to \<^verbatim>\<open>pointerHelper\<close>: the pointer delta is
  divided by the zoom, and \<^verbatim>\<open>props.onChange\<close> receives the position the handle had
  at pointer-down minus that delta, and the delta.
\<close>

definition Handle_onPointerMove :: "Vector \<Rightarrow> Vector \<Rightarrow> Vector \<Rightarrow> error + Vector \<times> Vector" where
  "Handle_onPointerMove zoom position delta =
     (case divideVector delta zoom of
        Inl e \<Rightarrow> Inl e
      | Inr d \<Rightarrow> Inr (subtractVector position d, d))"

definition pairedType :: "ControlType \<Rightarrow> ControlType" where
  "pairedType type = (case type of Pre \<Rightarrow> Post | Post \<Rightarrow> Pre)"

text \<open>
  \<^verbatim>\<open>onChange\<close> of the two \<^verbatim>\<open>Control\<close>s of \<^verbatim>\<open>Anchor\<close>: the dragged control is
  written first; with the meta key, and when the anchor has the opposite handle
  (\<open>props_paired\<close>, in absolute coordinates), that handle minus \<open>delta * -1\<close> is
  written too. Both writes go through \<open>onAnchorChange\<close>, which reads only anchor
  positions from \<open>absAnchors\<close>; a control write does not change them.
\<close>

definition Anchor_onChange ::
  "Vector \<Rightarrow> Vector \<Rightarrow> Anchors \<Rightarrow> int \<Rightarrow> ControlType \<Rightarrow> Vector option \<Rightarrow> Vector \<Rightarrow> Vector \<Rightarrow> bool
     \<Rightarrow> Anchors \<Rightarrow> error option \<times> Anchors" where
  "Anchor_onChange origin zoom absAnchors index type props_paired position delta metaKey anchors =
     (case onAnchorChange origin zoom absAnchors type index position anchors of
        (Some e, anchors1) \<Rightarrow> (Some e, anchors1)
      | (None, anchors1) \<Rightarrow>
          (case props_paired of
             None \<Rightarrow> (None, anchors1)
           | Some paired \<Rightarrow>
               if metaKey
               then onAnchorChange origin zoom absAnchors (pairedType type) index
                      (subtractVector paired (multiplyVector delta (-1))) anchors1
               else (None, anchors1)))"

subsection \<open>Later version: \<^verbatim>\<open>absoluteToRelativeControl\<close> and the drag handlers\<close>

text \<open>
  \<^verbatim>\<open>getPairedAnchor(type, index)\<close> returns the empty array at the two edges, and
  the neighbouring absolute anchor otherwise; every caller takes the first component
  of the result (\<^verbatim>\<open>const [pairedPosition] = getPairedAnchor(type, index)\<close>), which
  raises a TypeError when the neighbour is \<^verbatim>\<open>undefined\<close>. The model returns that
  first component.
\<close>

definition getPairedAnchor :: "Anchors \<Rightarrow> ControlType \<Rightarrow> int \<Rightarrow> error + Vector option" where
  "getPairedAnchor absAnchors type index =
     (if type = Pre \<and> index = 0 then Inr None
      else if type = Post \<and> index = int (length absAnchors) - 1 then Inr None
      else (case at_index absAnchors (if type = Pre then index - 1 else index + 1) of
              None \<Rightarrow> Inl TypeError
            | Some (p, _) \<Rightarrow> Inr (Some p)))"

definition absoluteToRelativeControl ::
  "Anchors \<Rightarrow> ControlType \<Rightarrow> int \<Rightarrow> Vector \<Rightarrow> error + Vector" where
  "absoluteToRelativeControl absAnchors type index absoluteControl =
     (case at_index absAnchors index of
        None \<Rightarrow> Inl TypeError
      | Some (position, _) \<Rightarrow>
          (case getPairedAnchor absAnchors type index of
             Inl e \<Rightarrow> Inl e
           | Inr None \<Rightarrow> Inl PreconditionError
           | Inr (Some pairedPosition) \<Rightarrow>
               (let lo = (if type = Post then position else pairedPosition);
                    hi = (if type = Post then pairedPosition else position);
                    X = max (vx lo) (min (vx hi) (vx absoluteControl))
                in (case js_divide \<bar>vx position - X\<bar> \<bar>vx position - vx pairedPosition\<bar> of
                      Inl e \<Rightarrow> Inl e
                    | Inr rx \<Rightarrow>
                        Inr \<lparr>vx = rx, vy = of_int \<lfloor>vy absoluteControl - vy position\<rfloor>\<rparr>))))"

text \<open>
  \<^verbatim>\<open>onControlDragStart\<close>, before the pointer moves: the ratio of the two neighbour
  ranges, \<^verbatim>\<open>undefined\<close> (\<open>None\<close>) unless the anchor has both neighbours.
\<close>

definition onControlDragStart_ratio ::
  "Anchors \<Rightarrow> ControlType \<Rightarrow> Vector \<Rightarrow> int \<Rightarrow> error + real option" where
  "onControlDragStart_ratio absAnchors type position index =
     (case getPairedAnchor absAnchors Pre index of
        Inl e \<Rightarrow> Inl e
      | Inr prePosition \<Rightarrow>
          (case getPairedAnchor absAnchors Post index of
             Inl e \<Rightarrow> Inl e
           | Inr postPosition \<Rightarrow>
               (case (map_option (subtractVector position) prePosition,
                      map_option (subtractVector position) postPosition) of
                  (Some preRange, Some postRange) \<Rightarrow>
                    (case (if type = Pre then js_divide (vx postRange) (vx preRange)
                           else js_divide (vx preRange) (vx postRange)) of
                       Inl e \<Rightarrow> Inl e
                     | Inr r \<Rightarrow> Inr (Some r))
                | _ \<Rightarrow> Inr None)))"

text \<open>
  The callback \<^verbatim>\<open>onControlDragStart\<close> gives to \<^verbatim>\<open>pointerHelper\<close>.
  \<^verbatim>\<open>event.metaKey && ratio\<close> holds when the key is down and the ratio is a number
  other than \<open>0\<close>.
\<close>

definition onControlDragStart_move ::
  "Vector \<Rightarrow> Anchors \<Rightarrow> ControlType \<Rightarrow> int \<Rightarrow> Vector \<Rightarrow> real option \<Rightarrow> Vector \<Rightarrow> bool
     \<Rightarrow> Anchors \<Rightarrow> error option \<times> Anchors" where
  "onControlDragStart_move zoom absAnchors type index initialControl ratio delta metaKey anchors =
     (case divideVector delta zoom of
        Inl e \<Rightarrow> (Some e, anchors)
      | Inr d \<Rightarrow>
          (let absoluteControl = subtractVector initialControl d
           in (case absoluteToRelativeControl absAnchors type index absoluteControl of
                 Inl e \<Rightarrow> (Some e, anchors)
               | Inr control \<Rightarrow>
                   (case setAnchors_control index type control anchors of
                      Inl e \<Rightarrow> (Some e, anchors)
                    | Inr anchors1 \<Rightarrow>
                        (case ratio of
                           None \<Rightarrow> (None, anchors1)
                         | Some r \<Rightarrow>
                             if metaKey \<and> r \<noteq> 0
                             then (case setAnchors_control index (pairedType type)
                                          \<lparr>vx = vx control, vy = vy control * r\<rparr> anchors1 of
                                     Inl e \<Rightarrow> (Some e, anchors1)
                                   | Inr anchors2 \<Rightarrow> (None, anchors2))
                             else (None, anchors1))))))"

text \<open>
  The callback \<^verbatim>\<open>onPositionDragStart\<close> gives to \<^verbatim>\<open>pointerHelper\<close>;
  \<open>prePosition\<close> and \<open>postPosition\<close> are the neighbours' positions, read by
  \<open>getPairedAnchor\<close> when the drag starts.
\<close>

definition onPositionDragStart_move ::
  "Vector \<Rightarrow> Vector option \<Rightarrow> Vector option \<Rightarrow> int \<Rightarrow> Vector \<Rightarrow> Vector \<Rightarrow> Anchors
     \<Rightarrow> error option \<times> Anchors" where
  "onPositionDragStart_move zoom prePosition postPosition index initialPosition delta anchors =
     (case divideVector delta zoom of
        Inl e \<Rightarrow> (Some e, anchors)
      | Inr d \<Rightarrow>
          (let position = subtractVector initialPosition d;
               position1 =
                 (case prePosition of
                    None \<Rightarrow> position
                  | Some p \<Rightarrow>
                      if vx position - 1 < vx p then position\<lparr>vx := vx p + 1\<rparr> else position);
               position2 =
                 (case postPosition of
                    None \<Rightarrow> position1
                  | Some n \<Rightarrow>
                      if vx position1 + 1 > vx n then position1\<lparr>vx := vx n - 1\<rparr> else position1)
           in (case setAnchors_position index position2 anchors of
                 Inl e \<Rightarrow> (Some e, anchors)
               | Inr anchors' \<Rightarrow> (None, anchors'))))"

text \<open>
  What the clamp of a handle drag gives at the two ends, for an anchor at time \<open>p\<close>,
  its paired neighbour at time \<open>q\<close>, a candidate absolute \<open>X\<close> and the relative \<open>rx\<close>
  that is stored: on the side of the anchor \<open>rx\<close> is \<open>0\<close>, on the side of the
  neighbour it is \<open>1\<close>.
\<close>

definition clampedAt :: "ControlType \<Rightarrow> real \<Rightarrow> real \<Rightarrow> real \<Rightarrow> real \<Rightarrow> bool" where
  "clampedAt type p q X rx =
     (case type of
        Post \<Rightarrow> p < q \<longrightarrow> (X \<le> p \<longrightarrow> rx = 0) \<and> (q \<le> X \<longrightarrow> rx = 1)
      | Pre \<Rightarrow> q < p \<longrightarrow> (p \<le> X \<longrightarrow> rx = 0) \<and> (X \<le> q \<longrightarrow> rx = 1))"

subsection \<open>Pointer sessions\<close>

text \<open>
  Modelled from the spec: \<^verbatim>\<open>pointerHelper\<close> of \<^verbatim>\<open>./utils/pointer-helper\<close>, which
  the spec describes as a sequence of delta events ended by the release of the
  pointer. The callback runs once for each event; the session is over when the list
  is. An exception of the callback is nowhere caught: the model stops the session
  there.
\<close>

fun pointerHelper ::
  "('e \<Rightarrow> Anchors \<Rightarrow> error option \<times> Anchors) \<Rightarrow> 'e list \<Rightarrow> Anchors \<Rightarrow> error option \<times> Anchors" where
  "pointerHelper callback [] anchors = (None, anchors)"
| "pointerHelper callback (e # es) anchors =
     (case callback e anchors of
        (Some err, anchors') \<Rightarrow> (Some err, anchors')
      | (None, anchors') \<Rightarrow> pointerHelper callback es anchors')"

text \<open>
  A drag of the position handle of anchor \<open>index\<close>. In the earlier version
  \<^verbatim>\<open>Handle\<close> keeps the position it had at pointer-down and \<open>onPositionChange\<close> reads
  the neighbours from the anchors derived from the store at each event. In the later
  version \<^verbatim>\<open>onPositionDragStart\<close> reads the neighbours once.
\<close>

definition Handle_onPointerDown_position ::
  "Vector \<Rightarrow> int \<Rightarrow> Vector \<Rightarrow> Vector list \<Rightarrow> Anchors \<Rightarrow> error option \<times> Anchors" where
  "Handle_onPointerDown_position zoom index position deltas anchors =
     pointerHelper
       (\<lambda>delta anchors.
          case Handle_onPointerMove zoom position delta of
            Inl e \<Rightarrow> (Some e, anchors)
          | Inr (candidate, d) \<Rightarrow>
              (case absoluteAnchors anchors of
                 Inl e \<Rightarrow> (Some e, anchors)
               | Inr absAnchors \<Rightarrow> onPositionChange absAnchors index candidate anchors))
       deltas anchors"

definition onPositionDragStart ::
  "Vector \<Rightarrow> Anchors \<Rightarrow> Anchor \<Rightarrow> int \<Rightarrow> Vector list \<Rightarrow> Anchors \<Rightarrow> error option \<times> Anchors" where
  "onPositionDragStart zoom absAnchors anchor index deltas anchors =
     (let initialPosition = fst anchor
      in (case getPairedAnchor absAnchors Pre index of
            Inl e \<Rightarrow> (Some e, anchors)
          | Inr prePosition \<Rightarrow>
              (case getPairedAnchor absAnchors Post index of
                 Inl e \<Rightarrow> (Some e, anchors)
               | Inr postPosition \<Rightarrow>
                   pointerHelper
                     (onPositionDragStart_move zoom prePosition postPosition index initialPosition)
                     deltas anchors)))"

section \<open>Sampling: \<^verbatim>\<open>lookupMapSegments\<close> and \<^verbatim>\<open>getValue\<close>\<close>

text \<open>
  Modelled from the spec: \<^verbatim>\<open>createLookupMap\<close> of
  \<^verbatim>\<open>./lib/create-cubic-lookup-map\<close>. For the pair \<open>(A, B)\<close> of absolute anchors, with
  the control points \<open>A.position\<close>, \<open>A.post\<close>, \<open>B.pre\<close>, \<open>B.position\<close> of a cubic Bezier
  curve, the spec has the builder sample \<open>x(t)\<close> and \<open>y(t)\<close> over \<open>t \<in> [0, 1]\<close> at a fixed
  sample count. The count is the parameter \<open>amount\<close>, a positive number: the samples are taken at
  \<open>t = k / amount\<close> for \<open>k = 0, \<dots>, amount\<close>. Where handles are absent the spec names
  a linear segment (its scenario: the anchors \<open>(0, 0)\<close> and \<open>(10, 10)\<close> without handles
  have the value \<open>5\<close> at the time \<open>5\<close>), as the path has a straight line where a
  control is absent: for a pair that lacks \<open>A.post\<close> or \<open>B.pre\<close> the samples are taken
  on the straight segment from \<open>A.position\<close> to \<open>B.position\<close>.
\<close>

definition cubic :: "real \<Rightarrow> real \<Rightarrow> real \<Rightarrow> real \<Rightarrow> real \<Rightarrow> real" where
  "cubic p0 p1 p2 p3 t =
     (1 - t) ^ 3 * p0 + 3 * (1 - t) ^ 2 * t * p1 + 3 * (1 - t) * t ^ 2 * p2 + t ^ 3 * p3"

definition linear :: "real \<Rightarrow> real \<Rightarrow> real \<Rightarrow> real" where
  "linear p0 p3 t = (1 - t) * p0 + t * p3"

type_synonym LookupMap = "(real \<times> real) list"

definition samples :: "nat \<Rightarrow> (real \<Rightarrow> real) \<Rightarrow> (real \<Rightarrow> real) \<Rightarrow> LookupMap" where
  "samples amount X Y =
     map (\<lambda>k. (X (real k / real amount), Y (real k / real amount))) [0..<Suc amount]"

definition createLookupMap :: "nat \<Rightarrow> Anchor \<Rightarrow> Anchor \<Rightarrow> LookupMap" where
  "createLookupMap amount a b =
     (case (controlOf (snd a) Post, controlOf (snd b) Pre) of
        (Some p1, Some p2) \<Rightarrow>
          samples amount (cubic (vx (fst a)) (vx p1) (vx p2) (vx (fst b)))
                         (cubic (vy (fst a)) (vy p1) (vy p2) (vy (fst b)))
      | _ \<Rightarrow>
          samples amount (linear (vx (fst a)) (vx (fst b)))
                         (linear (vy (fst a)) (vy (fst b))))"

text \<open>
  Modelled from the spec: the lookup in a map, which for a query \<open>x\<close> locates the
  bracketing samples and interpolates linearly between them. The first pair of
  consecutive samples with \<open>x\<^sub>0 \<le> x \<le> x\<^sub>1\<close> is taken; there is no value when no pair
  brackets \<open>x\<close>, or when the two samples share their \<open>x\<close>.
\<close>

fun lookup :: "LookupMap \<Rightarrow> real \<Rightarrow> real option" where
  "lookup ((x0, y0) # (x1, y1) # m) X =
     (if x0 \<le> X \<and> X \<le> x1
      then (if x1 = x0 then None else Some (y0 + (X - x0) / (x1 - x0) * (y1 - y0)))
      else lookup ((x1, y1) # m) X)"
| "lookup m X = None"

text \<open>
  \<^verbatim>\<open>lookupMapSegments\<close>: one entry for each absolute anchor, \<^verbatim>\<open>undefined\<close> for the
  last one, which has no next anchor. The fields \<^verbatim>\<open>range\<close> and \<^verbatim>\<open>map\<close> of a
  segment are named \<open>segment_range\<close> and \<open>segment_map\<close>. (The source builds the array
  with \<^verbatim>\<open>createIndexMemo\<close>; this callback does not raise.)
\<close>

record Segment =
  segment_range :: "real \<times> real"
  segment_map :: LookupMap

definition lookupMapSegments :: "nat \<Rightarrow> Anchors \<Rightarrow> Segment option list" where
  "lookupMapSegments amount absAnchors =
     map (\<lambda>i. case at_index absAnchors (int i + 1) of
                 None \<Rightarrow> None
               | Some next \<Rightarrow>
                   Some \<lparr>segment_range = (vx (fst (absAnchors ! i)), vx (fst next)),
                         segment_map = createLookupMap amount (absAnchors ! i) next\<rparr>)
         [0..<length absAnchors]"

text \<open>
  Modelled from the spec: \<^verbatim>\<open>getValueFromSegments\<close> of
  \<^verbatim>\<open>./lib/get-value-from-segments\<close>, which locates the segment whose \<open>x\<close> range
  contains \<open>time\<close> and returns that segment's lookup result. A segment is the closed
  interval between two consecutive anchors; the first segment that contains \<open>time\<close>
  is taken, and there is no value when none does.
\<close>

definition inRange :: "Segment \<Rightarrow> real \<Rightarrow> bool" where
  "inRange s time = (fst (segment_range s) \<le> time \<and> time \<le> snd (segment_range s))"

definition getValueFromSegments :: "Segment list \<Rightarrow> real \<Rightarrow> real option" where
  "getValueFromSegments segments time =
     (case find (\<lambda>s. inRange s time) segments of
        None \<Rightarrow> None
      | Some s \<Rightarrow> lookup (segment_map s) time)"

text \<open>
  \<^verbatim>\<open>getValue(time)\<close>: \<^verbatim>\<open>lookupMapSegments().slice(0, -1)\<close> drops the last entry,
  the only \<^verbatim>\<open>undefined\<close> one.
\<close>

definition segments :: "nat \<Rightarrow> Anchors \<Rightarrow> Segment list" where
  "segments amount absAnchors =
     List.map_filter (\<lambda>s. s) (butlast (lookupMapSegments amount absAnchors))"

definition getValue :: "nat \<Rightarrow> Anchors \<Rightarrow> real \<Rightarrow> error + real option" where
  "getValue amount anchors time =
     (case absoluteAnchors anchors of
        Inl e \<Rightarrow> Inl e
      | Inr absAnchors \<Rightarrow> Inr (getValueFromSegments (segments amount absAnchors) time))"

text \<open>
  The descriptors of the data model: a descriptor that exists has the neighbour it
  is relative to, and its relative \<open>x\<close> lies in \<open>[0, 1]\<close>. A side may be without
  descriptor, with or without neighbour.
\<close>

definition handleValid :: "Vector option \<Rightarrow> bool \<Rightarrow> bool" where
  "handleValid h neighbour =
     (case h of None \<Rightarrow> True | Some r \<Rightarrow> neighbour \<and> 0 \<le> vx r \<and> vx r \<le> 1)"

definition handlesValid :: "Anchors \<Rightarrow> bool" where
  "handlesValid anchors =
     (\<forall>i < length anchors.
        handleValid (controlOf (snd (anchors ! i)) Pre) (0 < i)
        \<and> handleValid (controlOf (snd (anchors ! i)) Post) (Suc i < length anchors))"

section \<open>\<^verbatim>\<open>addAnchor\<close>\<close>

text \<open>
  \<^verbatim>\<open>addAnchor(time, value = getValue(time))\<close>. The default of \<open>value\<close> is computed
  when the function is entered, before the store is written: \<^verbatim>\<open>getValue\<close> samples
  the anchors as they were. When \<^verbatim>\<open>getValue\<close> raises, \<^verbatim>\<open>addAnchor\<close> raises with
  it and writes nothing. When \<^verbatim>\<open>getValue\<close> has no value at \<open>time\<close>, \<open>value\<close> is
  \<^verbatim>\<open>undefined\<close>, and an anchor that is inserted has it as its \<open>y\<close>
  (\<open>UndefinedValue\<close>). \<open>value = None\<close> is the call without second argument.

  Two versions of the function are in the repository. The one of
  \<^verbatim>\<open>src/create-timeline.tsx\<close> returns without writing when no anchor lies after
  \<open>time\<close>, and gives the new anchor both handles wherever it lands.
\<close>

definition addAnchor :: "nat \<Rightarrow> real \<Rightarrow> real option \<Rightarrow> Anchors \<Rightarrow> error + Anchors" where
  "addAnchor amount time value anchors =
     (case (case value of None \<Rightarrow> getValue amount anchors time | Some v \<Rightarrow> Inr (Some v)) of
        Inl e \<Rightarrow> Inl e
      | Inr v \<Rightarrow>
          (let index = findIndex (\<lambda>(anchor, _). vx anchor > time) anchors
           in if index = -1 then Inr anchors
              else
                (case v of
                   None \<Rightarrow> Inl UndefinedValue
                 | Some y \<Rightarrow>
                     Inr (spliceArray index 0
                            [(\<lparr>vx = time, vy = y\<rparr>,
                              Some \<lparr>pre = Some \<lparr>vx = 0.5, vy = 0\<rparr>,
                                    post = Some \<lparr>vx = 0.5, vy = 0\<rparr>\<rparr>)]
                            anchors))))"

text \<open>
  The other version (in the file that has the \<^verbatim>\<open>Value\<close> component) also appends
  after the last anchor and prepends before the first one, and writes the facing
  handle of the anchor that was at the edge, with \<open>withControl\<close>.
  \<^verbatim>\<open>anchors[anchors.length - 1][1] = ...\<close> raises a TypeError on the empty store.
\<close>

definition addAnchor_edges ::
  "nat \<Rightarrow> real \<Rightarrow> real option \<Rightarrow> Anchors \<Rightarrow> error + Anchors" where
  "addAnchor_edges amount time value anchors =
     (case (case value of None \<Rightarrow> getValue amount anchors time | Some v \<Rightarrow> Inr (Some v)) of
        Inl e \<Rightarrow> Inl e
      | Inr v \<Rightarrow>
          (let index = findIndex (\<lambda>(anchor, _). vx anchor > time) anchors
           in if index = -1 then
                (case at_index anchors (int (length anchors) - 1) of
                   None \<Rightarrow> Inl TypeError
                 | Some (p, c) \<Rightarrow>
                     (case v of
                        None \<Rightarrow> Inl UndefinedValue
                      | Some y \<Rightarrow>
                          Inr (anchors[length anchors - 1 :=
                                 (p, Some (withControl c Post \<lparr>vx = 0.5, vy = 0\<rparr>))]
                               @ [(\<lparr>vx = time, vy = y\<rparr>,
                                   Some \<lparr>pre = Some \<lparr>vx = 0.5, vy = 0\<rparr>, post = None\<rparr>)])))
              else if index = 0 then
                (case at_index anchors 0 of
                   None \<Rightarrow> Inl TypeError
                 | Some (p, c) \<Rightarrow>
                     (case v of
                        None \<Rightarrow> Inl UndefinedValue
                      | Some y \<Rightarrow>
                          Inr ((\<lparr>vx = time, vy = y\<rparr>,
                                Some \<lparr>pre = None, post = Some \<lparr>vx = 0.5, vy = 0\<rparr>\<rparr>)
                               # anchors[0 := (p, Some (withControl c Pre \<lparr>vx = 0.5, vy = 0\<rparr>))])))
              else
                (case v of
                   None \<Rightarrow> Inl UndefinedValue
                 | Some y \<Rightarrow>
                     Inr (spliceArray index 0
                            [(\<lparr>vx = time, vy = y\<rparr>,
                              Some \<lparr>pre = Some \<lparr>vx = 0.5, vy = 0\<rparr>,
                                    post = Some \<lparr>vx = 0.5, vy = 0\<rparr>\<rparr>)]
                            anchors))))"

section \<open>Example stores\<close>

definition h05 :: Vector where
  "h05 = \<lparr>vx = 0.5, vy = 0\<rparr>"

definition three :: Anchors where
  "three =
     [(\<lparr>vx = 0, vy = 0\<rparr>, Some \<lparr>pre = None, post = Some h05\<rparr>),
      (\<lparr>vx = 10, vy = 10\<rparr>, Some \<lparr>pre = Some h05, post = Some h05\<rparr>),
      (\<lparr>vx = 20, vy = 0\<rparr>, Some \<lparr>pre = Some h05, post = None\<rparr>)]"

definition three_absolute :: Anchors where
  "three_absolute =
     [(\<lparr>vx = 0, vy = 0\<rparr>, Some \<lparr>pre = None, post = Some \<lparr>vx = 5, vy = 0\<rparr>\<rparr>),
      (\<lparr>vx = 10, vy = 10\<rparr>,
       Some \<lparr>pre = Some \<lparr>vx = 5, vy = 10\<rparr>, post = Some \<lparr>vx = 15, vy = 10\<rparr>\<rparr>),
      (\<lparr>vx = 20, vy = 0\<rparr>, Some \<lparr>pre = Some \<lparr>vx = 15, vy = 0\<rparr>, post = None\<rparr>)]"

definition two :: Anchors where
  "two =
     [(\<lparr>vx = 0, vy = 0\<rparr>, Some \<lparr>pre = None, post = Some h05\<rparr>),
      (\<lparr>vx = 10, vy = 10\<rparr>, Some \<lparr>pre = Some h05, post = None\<rparr>)]"

definition two_absolute :: Anchors where
  "two_absolute =
     [(\<lparr>vx = 0, vy = 0\<rparr>, Some \<lparr>pre = None, post = Some \<lparr>vx = 5, vy = 0\<rparr>\<rparr>),
      (\<lparr>vx = 10, vy = 10\<rparr>, Some \<lparr>pre = Some \<lparr>vx = 5, vy = 10\<rparr>, post = None\<rparr>)]"

definition uneven :: Anchors where
  "uneven =
     [(\<lparr>vx = 0, vy = 0\<rparr>, Some \<lparr>pre = None, post = Some h05\<rparr>),
      (\<lparr>vx = 10, vy = 0\<rparr>, Some \<lparr>pre = Some h05, post = Some h05\<rparr>),
      (\<lparr>vx = 30, vy = 0\<rparr>, Some \<lparr>pre = Some h05, post = None\<rparr>)]"

definition uneven_absolute :: Anchors where
  "uneven_absolute =
     [(\<lparr>vx = 0, vy = 0\<rparr>, Some \<lparr>pre = None, post = Some \<lparr>vx = 5, vy = 0\<rparr>\<rparr>),
      (\<lparr>vx = 10, vy = 0\<rparr>,
       Some \<lparr>pre = Some \<lparr>vx = 5, vy = 0\<rparr>, post = Some \<lparr>vx = 20, vy = 0\<rparr>\<rparr>),
      (\<lparr>vx = 30, vy = 0\<rparr>, Some \<lparr>pre = Some \<lparr>vx = 20, vy = 0\<rparr>, post = None\<rparr>)]"

definition orphan :: Anchors where
  "orphan =
     [(\<lparr>vx = 10, vy = 10\<rparr>, Some \<lparr>pre = Some h05, post = Some h05\<rparr>),
      (\<lparr>vx = 20, vy = 0\<rparr>, Some \<lparr>pre = Some h05, post = None\<rparr>)]"

definition overshoot :: Anchors where
  "overshoot =
     [(\<lparr>vx = 0, vy = 0\<rparr>, Some \<lparr>pre = None, post = Some \<lparr>vx = -1, vy = 8\<rparr>\<rparr>),
      (\<lparr>vx = 10, vy = 10\<rparr>, Some \<lparr>pre = Some h05, post = None\<rparr>)]"

definition overshoot_absolute :: Anchors where
  "overshoot_absolute =
     [(\<lparr>vx = 0, vy = 0\<rparr>, Some \<lparr>pre = None, post = Some \<lparr>vx = -10, vy = 8\<rparr>\<rparr>),
      (\<lparr>vx = 10, vy = 10\<rparr>, Some \<lparr>pre = Some \<lparr>vx = 5, vy = 10\<rparr>, post = None\<rparr>)]"

definition bare :: Anchors where
  "bare = [(\<lparr>vx = 0, vy = 0\<rparr>, None), (\<lparr>vx = 10, vy = 10\<rparr>, None)]"

definition close :: Anchors where
  "close = [(\<lparr>vx = 0, vy = 0\<rparr>, None), (\<lparr>vx = 0.5, vy = 0\<rparr>, None), (\<lparr>vx = 1, vy = 0\<rparr>, None)]"

definition close_absolute :: Anchors where
  "close_absolute =
     [(\<lparr>vx = 0, vy = 0\<rparr>, Some \<lparr>pre = None, post = None\<rparr>),
      (\<lparr>vx = 0.5, vy = 0\<rparr>, Some \<lparr>pre = None, post = None\<rparr>),
      (\<lparr>vx = 1, vy = 0\<rparr>, Some \<lparr>pre = None, post = None\<rparr>)]"

section \<open>Properties of the anchor store\<close>

lemma at_index_Some_iff:
  "at_index xs i = Some a \<longleftrightarrow> 0 \<le> i \<and> i < int (length xs) \<and> xs ! nat i = a"
  by (auto simp: at_index_def)

lemma at_index_nat [simp]:
  "at_index xs (int i) = (if i < length xs then Some (xs ! i) else None)"
  by (simp add: at_index_def)

subsection \<open>The absolute-anchor deriver\<close>

lemma sequence_Inr:
  "sequence rs = Inr vs \<Longrightarrow> length vs = length rs \<and> (\<forall>i<length rs. rs ! i = Inr (vs ! i))"
proof (induction rs arbitrary: vs)
  case Nil
  then show ?case by simp
next
  case (Cons r rs)
  then obtain v vs' where r: "r = Inr v" and rs: "sequence rs = Inr vs'" and vs: "vs = v # vs'"
    by (auto split: sum.splits)
  from Cons.IH [OF rs] show ?case
    by (auto simp: r vs nth_Cons split: nat.splits)
qed

lemma sequence_map_Inr:
  "(\<And>x. x \<in> set xs \<Longrightarrow> g x = Inr (f x)) \<Longrightarrow> sequence (map g xs) = Inr (map f xs)"
  by (induction xs) simp_all

lemma absoluteAnchors_nth:
  assumes "absoluteAnchors anchors = Inr absAnchors"
  shows "length absAnchors = length anchors"
    and "i < length anchors \<Longrightarrow> absoluteAnchor anchors (anchors ! i) (int i) = Inr (absAnchors ! i)"
  using sequence_Inr [OF assms [unfolded absoluteAnchors_def createIndexMemo_def]]
  by simp_all

lemma absoluteAnchor_value:
  assumes "controlOf controls Pre \<noteq> None \<longrightarrow> at_index anchors (index - 1) \<noteq> None"
    and "controlOf controls Post \<noteq> None \<longrightarrow> at_index anchors (index + 1) \<noteq> None"
  shows "absoluteAnchor anchors (position, controls) index =
     Inr (position,
          Some \<lparr>pre =
                   (case controlOf controls Pre of
                      None \<Rightarrow> None
                    | Some r \<Rightarrow>
                        (case at_index anchors (index - 1) of
                           None \<Rightarrow> None
                         | Some (prev, _) \<Rightarrow>
                             Some (addVector position
                                     \<lparr>vx = (vx position - vx prev) * (- vx r), vy = vy r\<rparr>))),
                 post =
                   (case controlOf controls Post of
                      None \<Rightarrow> None
                    | Some r \<Rightarrow>
                        (case at_index anchors (index + 1) of
                           None \<Rightarrow> None
                         | Some (next, _) \<Rightarrow>
                             Some (addVector position
                                     \<lparr>vx = (vx next - vx position) * vx r, vy = vy r\<rparr>)))\<rparr>)"
  using assms
  by (auto simp: absoluteAnchor_def Let_def split: option.splits prod.splits)

lemma absoluteAnchor_Inr:
  assumes "absoluteAnchor anchors (position, controls) index = Inr b"
  shows "fst b = position"
    and "controlOf controls Pre \<noteq> None \<longrightarrow> at_index anchors (index - 1) \<noteq> None"
    and "controlOf controls Post \<noteq> None \<longrightarrow> at_index anchors (index + 1) \<noteq> None"
  using assms
  by (auto simp: absoluteAnchor_def Let_def split: option.splits prod.splits)

lemma at_index_neighbours:
  assumes "i < length anchors"
  shows "at_index anchors (int i - 1) = (if 0 < i then Some (anchors ! (i - 1)) else None)"
    and "at_index anchors (int i + 1) =
      (if Suc i < length anchors then Some (anchors ! Suc i) else None)"
  using assms by (auto simp: at_index_def nat_diff_distrib' nat_add_distrib)

text \<open>
  Claim C2. Let each descriptor of the store have its neighbour. The deriver
  \<open>absoluteAnchors\<close> returns, with as many anchors as the store has, and the anchor it
  gives at index \<open>i\<close> has the position of the stored anchor at \<open>i\<close>, unchanged. When the
  stored anchor has a relative \<open>pre\<close> descriptor, its absolute \<open>pre\<close> is
  \<open>position + ((position.x - prev.x) * (- pre.x), pre.y)\<close> with \<open>prev\<close> the position
  of the anchor at \<open>i - 1\<close>; when it has a relative \<open>post\<close> descriptor, its absolute
  \<open>post\<close> is \<open>position + ((next.x - position.x) * post.x, post.y)\<close> with \<open>next\<close> the
  position of the anchor at \<open>i + 1\<close>. A side without descriptor has no absolute handle.
  The order of the anchors in time plays no part.
\<close>

theorem absoluteAnchors_resolves:
  assumes "descriptorsPaired anchors"
  shows "\<exists>absAnchors. absoluteAnchors anchors = Inr absAnchors
    \<and> length absAnchors = length anchors
    \<and> (\<forall>i < length anchors.
          absAnchors ! i =
            (fst (anchors ! i),
             Some \<lparr>pre =
                      (case controlOf (snd (anchors ! i)) Pre of
                         None \<Rightarrow> None
                       | Some r \<Rightarrow>
                           Some (addVector (fst (anchors ! i))
                                   \<lparr>vx = (vx (fst (anchors ! i)) - vx (fst (anchors ! (i - 1))))
                                           * (- vx r),
                                      vy = vy r\<rparr>)),
                    post =
                      (case controlOf (snd (anchors ! i)) Post of
                         None \<Rightarrow> None
                       | Some r \<Rightarrow>
                           Some (addVector (fst (anchors ! i))
                                   \<lparr>vx = (vx (fst (anchors ! Suc i)) - vx (fst (anchors ! i)))
                                           * vx r,
                                      vy = vy r\<rparr>))\<rparr>))"
proof -
  define resolved where "resolved i =
      (fst (anchors ! i),
       Some \<lparr>pre =
                (case controlOf (snd (anchors ! i)) Pre of
                   None \<Rightarrow> None
                 | Some r \<Rightarrow>
                     Some (addVector (fst (anchors ! i))
                             \<lparr>vx = (vx (fst (anchors ! i)) - vx (fst (anchors ! (i - 1))))
                                     * (- vx r),
                                vy = vy r\<rparr>)),
              post =
                (case controlOf (snd (anchors ! i)) Post of
                   None \<Rightarrow> None
                 | Some r \<Rightarrow>
                     Some (addVector (fst (anchors ! i))
                             \<lparr>vx = (vx (fst (anchors ! Suc i)) - vx (fst (anchors ! i)))
                                     * vx r,
                                vy = vy r\<rparr>))\<rparr>)" for i
  have each: "absoluteAnchor anchors (anchors ! i) (int i) = Inr (resolved i)"
    if i: "i < length anchors" for i
  proof -
    obtain position controls where a: "anchors ! i = (position, controls)"
      by (cases "anchors ! i")
    have paired: "controlOf controls Pre \<noteq> None \<longrightarrow> 0 < i"
      "controlOf controls Post \<noteq> None \<longrightarrow> Suc i < length anchors"
      using assms i a by (auto simp: descriptorsPaired_def)
    note at = at_index_neighbours [OF i]
    have pre_ok: "controlOf controls Pre \<noteq> None \<longrightarrow> at_index anchors (int i - 1) \<noteq> None"
      using paired(1) by (simp add: at(1))
    have post_ok: "controlOf controls Post \<noteq> None \<longrightarrow> at_index anchors (int i + 1) \<noteq> None"
      using paired(2) by (simp add: at(2))
    show ?thesis
      unfolding a absoluteAnchor_value [OF pre_ok post_ok]
      using paired
      by (auto simp: resolved_def a at split: option.splits prod.splits)
  qed
  have "sequence (map (\<lambda>i. absoluteAnchor anchors (anchors ! i) (int i)) [0..<length anchors])
      = Inr (map resolved [0..<length anchors])"
    by (rule sequence_map_Inr) (simp add: each)
  then have derived: "absoluteAnchors anchors = Inr (map resolved [0..<length anchors])"
    by (simp add: absoluteAnchors_def createIndexMemo_def)
  have "length (map resolved [0..<length anchors]) = length anchors"
    by simp
  moreover have "\<forall>i < length anchors. map resolved [0..<length anchors] ! i = resolved i"
    by simp
  ultimately show ?thesis
    using derived unfolding resolved_def by blast
qed

text \<open>
  The store \<open>three\<close>, with the anchors \<open>(0, 0)\<close>, \<open>(10, 10)\<close> and \<open>(20, 0)\<close> and the
  descriptors \<open>(0.5, 0)\<close>: the handles of the middle anchor are resolved to \<open>(5, 10)\<close>
  and \<open>(15, 10)\<close>.
\<close>

theorem absoluteAnchors_resolves_witness:
  "timeSorted three \<and> descriptorsPaired three \<and> absoluteAnchors three = Inr three_absolute"
proof -
  have sorted: "timeSorted three"
    by (simp add: timeSorted_def anchorTimes_def three_def)
  have paired: "descriptorsPaired three"
    by (simp add: descriptorsPaired_def controlOf_def three_def h05_def All_less_Suc)
  from absoluteAnchors_resolves [OF paired]
  obtain absAnchors where derived: "absoluteAnchors three = Inr absAnchors"
    and len: "length absAnchors = length three"
    and each: "\<forall>i < length three.
          absAnchors ! i =
            (fst (three ! i),
             Some \<lparr>pre =
                      (case controlOf (snd (three ! i)) Pre of
                         None \<Rightarrow> None
                       | Some r \<Rightarrow>
                           Some (addVector (fst (three ! i))
                                   \<lparr>vx = (vx (fst (three ! i)) - vx (fst (three ! (i - 1))))
                                           * (- vx r),
                                      vy = vy r\<rparr>)),
                    post =
                      (case controlOf (snd (three ! i)) Post of
                         None \<Rightarrow> None
                       | Some r \<Rightarrow>
                           Some (addVector (fst (three ! i))
                                   \<lparr>vx = (vx (fst (three ! Suc i)) - vx (fst (three ! i)))
                                           * vx r,
                                      vy = vy r\<rparr>))\<rparr>)"
    by blast
  have "absAnchors = three_absolute"
  proof (rule nth_equalityI)
    show "length absAnchors = length three_absolute"
      using len by (simp add: three_def three_absolute_def)
  next
    fix i
    assume "i < length absAnchors"
    then have "i < length three"
      using len by simp
    then consider "i = 0" | "i = 1" | "i = 2"
      unfolding three_def by fastforce
    then show "absAnchors ! i = three_absolute ! i"
      using each
      by cases (simp_all add: three_def three_absolute_def controlOf_def addVector_def h05_def)
  qed
  then show ?thesis
    using sorted paired derived by simp
qed

subsection \<open>\<^verbatim>\<open>deleteAnchor\<close>\<close>

text \<open>
  Claim C9, as the code has it. \<open>deleteAnchor index\<close> removes exactly the anchor at
  \<open>index\<close> when \<open>0 \<le> index < length\<close>, and leaves the others as they are and in their
  order. It never raises: with \<open>index \<ge> length\<close> the store is left as it is, and a
  negative \<open>index\<close> is counted from the end of the store (and taken as \<open>0\<close> when it
  reaches before the first anchor), so that an anchor is removed there too.
\<close>

theorem deleteAnchor_splice:
  "(0 \<le> index \<and> index < int (length anchors) \<longrightarrow>
      deleteAnchor index anchors = take (nat index) anchors @ drop (Suc (nat index)) anchors)
   \<and> (int (length anchors) \<le> index \<longrightarrow> deleteAnchor index anchors = anchors)
   \<and> (index < 0 \<longrightarrow>
      deleteAnchor index anchors =
        deleteAnchor (max (int (length anchors) + index) 0) anchors)"
proof (intro conjI impI)
  assume inside: "0 \<le> index \<and> index < int (length anchors)"
  then have "nat (index + 1) = Suc (nat index)"
    by linarith
  with inside
  show "deleteAnchor index anchors = take (nat index) anchors @ drop (Suc (nat index)) anchors"
    by (simp add: deleteAnchor_def spliceArray_def Let_def min_def max_def)
next
  assume "int (length anchors) \<le> index"
  then show "deleteAnchor index anchors = anchors"
    by (simp add: deleteAnchor_def spliceArray_def Let_def min_def max_def)
next
  assume "index < 0"
  then show "deleteAnchor index anchors =
      deleteAnchor (max (int (length anchors) + index) 0) anchors"
    by (simp add: deleteAnchor_def spliceArray_def Let_def min_def max_def)
qed

theorem deleteAnchor_splice_witness:
  "deleteAnchor 1 three = [three ! 0, three ! 2] \<and> deleteAnchor 3 three = three
    \<and> deleteAnchor (-1) three = [three ! 0, three ! 1]"
  using deleteAnchor_splice [of 1 three] deleteAnchor_splice [of 3 three]
    deleteAnchor_splice [of "-1" three] deleteAnchor_splice [of 2 three]
  by (simp add: three_def)

text \<open>
  The claim has every out-of-range index fail with an \<open>IndexError\<close>. On the three
  anchors of \<open>three\<close>, index \<open>3\<close> leaves the store unchanged and index \<open>-1\<close> removes
  the last anchor; neither raises.
\<close>

theorem deleteAnchor_out_of_range_counterexample:
  "deleteAnchor 3 three = three \<and> deleteAnchor (-1) three = [three ! 0, three ! 1]"
  by (simp add: deleteAnchor_def spliceArray_def three_def)

text \<open>
  Claim C10 has \<open>deleteAnchor 0\<close> on three time-sorted anchors leave a first anchor
  without \<open>pre\<close> handle. \<open>deleteAnchor\<close> removes the first anchor and writes nothing
  else: on \<open>three\<close> the anchor that is now first keeps its \<open>pre\<close> descriptor
  \<open>(0.5, 0)\<close>, and the deriver raises a TypeError on it, reading the anchor before the
  first one.
\<close>

theorem deleteAnchor_first_keeps_pre:
  "timeSorted three
   \<and> deleteAnchor 0 three = [three ! 1, three ! 2]
   \<and> controlOf (snd (hd (deleteAnchor 0 three))) Pre = Some \<lparr>vx = 0.5, vy = 0\<rparr>
   \<and> absoluteAnchor (deleteAnchor 0 three) (hd (deleteAnchor 0 three)) 0 = Inl TypeError
   \<and> absoluteAnchors (deleteAnchor 0 three) = Inl TypeError"
  by (simp add: deleteAnchor_def spliceArray_def three_def h05_def controlOf_def
      absoluteAnchor_def at_index_def absoluteAnchors_def createIndexMemo_def
      timeSorted_def anchorTimes_def)

section \<open>Properties of the drag handlers\<close>

subsection \<open>Auxiliary facts\<close>

lemma divideVector_nonzero:
  "vx zoom \<noteq> 0 \<Longrightarrow> vy zoom \<noteq> 0
    \<Longrightarrow> divideVector delta zoom = Inr \<lparr>vx = vx delta / vx zoom, vy = vy delta / vy zoom\<rparr>"
  by (simp add: divideVector_def js_divide_def)

lemma getPairedAnchor_edge:
  "(type = Pre \<and> index = 0) \<or> (type = Post \<and> index = int (length absAnchors) - 1)
    \<Longrightarrow> getPairedAnchor absAnchors type index = Inr None"
  by (auto simp: getPairedAnchor_def)

lemma getPairedAnchor_inner:
  assumes "at_index absAnchors (if type = Post then index + 1 else index - 1) = Some (paired, pc)"
  shows "getPairedAnchor absAnchors type index = Inr (Some paired)"
  using assms by (cases type) (auto simp: getPairedAnchor_def at_index_def split: if_splits)

lemma controlOf_withControl [simp]:
  "controlOf (Some (withControl c type h)) type = Some h"
  by (cases type; cases c) (simp_all add: controlOf_def withControl_def)

lemma controlOf_withControl_paired [simp]:
  "controlOf (Some (withControl c type h)) (pairedType type) = controlOf c (pairedType type)"
  by (cases type; cases c) (simp_all add: controlOf_def withControl_def pairedType_def)

lemma controlOf_withControl_paired' [simp]:
  "controlOf (Some (withControl c (pairedType type) h)) type = controlOf c type"
  by (cases type; cases c) (simp_all add: controlOf_def withControl_def pairedType_def)

lemma relative_bounds:
  fixes p q X :: real
  assumes "p \<noteq> q" and "\<bar>p - X\<bar> \<le> \<bar>p - q\<bar>"
  shows "0 \<le> \<bar>p - X\<bar> / \<bar>p - q\<bar> \<and> \<bar>p - X\<bar> / \<bar>p - q\<bar> \<le> 1"
  using assms by (simp add: divide_le_eq_1)

lemma clamp_within:
  fixes p q a :: real
  shows "\<bar>p - max p (min q a)\<bar> \<le> \<bar>p - q\<bar>"
    and "\<bar>p - max q (min p a)\<bar> \<le> \<bar>p - q\<bar>"
    and "\<bar>p - (let a1 = (if q < a then q else a) in if a1 < p then p else a1)\<bar> \<le> \<bar>p - q\<bar>"
    and "\<bar>p - (let a1 = (if q > a then q else a) in if a1 > p then p else a1)\<bar> \<le> \<bar>p - q\<bar>"
  by (auto simp: max_def min_def Let_def)

lemma absoluteToRelativeControl_value:
  assumes "at_index absAnchors index = Some (position, ac)"
    and "at_index absAnchors (if type = Post then index + 1 else index - 1) = Some (paired, pc)"
    and "vx position \<noteq> vx paired"
  shows "absoluteToRelativeControl absAnchors type index a =
      Inr \<lparr>vx = \<bar>vx position -
                  (if type = Post then max (vx position) (min (vx paired) (vx a))
                   else max (vx paired) (min (vx position) (vx a)))\<bar>
                / \<bar>vx position - vx paired\<bar>,
           vy = of_int \<lfloor>vy a - vy position\<rfloor>\<rparr>"
  using assms getPairedAnchor_inner [OF assms(2)]
  by (simp add: absoluteToRelativeControl_def js_divide_def Let_def)

lemma setAnchors_control_value:
  assumes "at_index anchors index = Some (sp, Some sc)"
  shows "setAnchors_control index type control anchors =
     Inr (anchors[nat index := (sp, Some (withControl (Some sc) type control))])"
  using assms by (simp add: setAnchors_control_def)

lemma at_index_update:
  assumes "at_index anchors index = Some a"
  shows "at_index (anchors[nat index := b]) index = Some b"
  using assms by (auto simp: at_index_def split: if_splits)

lemma at_index_nth:
  assumes "at_index anchors index = Some a"
  shows "nat index < length anchors" and "anchors ! nat index = a"
  using assms by (auto simp: at_index_def split: if_splits)

text \<open>The store after one move of a control drag.\<close>

lemma onControlDragStart_move_value:
  assumes "at_index absAnchors index = Some (position, ac)"
    and "at_index absAnchors (if type = Post then index + 1 else index - 1) = Some (paired, pc)"
    and "vx position \<noteq> vx paired"
    and "at_index anchors index = Some (sp, Some sc)"
    and "vx zoom \<noteq> 0" "vy zoom \<noteq> 0"
    and "absoluteToRelativeControl absAnchors type index
           (subtractVector initialControl \<lparr>vx = vx delta / vx zoom, vy = vy delta / vy zoom\<rparr>) = Inr r"
  shows "onControlDragStart_move zoom absAnchors type index initialControl ratio delta metaKey anchors =
     (None,
      case ratio of
        None \<Rightarrow> anchors[nat index := (sp, Some (withControl (Some sc) type r))]
      | Some k \<Rightarrow>
          if metaKey \<and> k \<noteq> 0
          then anchors[nat index :=
                 (sp, Some (withControl (Some (withControl (Some sc) type r)) (pairedType type)
                              \<lparr>vx = vx r, vy = vy r * k\<rparr>))]
          else anchors[nat index := (sp, Some (withControl (Some sc) type r))])"
  using assms(5-7) setAnchors_control_value [OF assms(4)]
    setAnchors_control_value [OF at_index_update [OF assms(4)]]
  by (simp add: onControlDragStart_move_def divideVector_nonzero Let_def split: option.splits)

lemma absoluteAnchors_at_index:
  assumes "absoluteAnchors anchors = Inr absAnchors"
    and "at_index anchors index = Some (position, controls)"
  shows "absoluteAnchor anchors (position, controls) index = Inr (the (at_index absAnchors index))"
    and "\<exists>ac. at_index absAnchors index = Some (position, ac)"
proof -
  have i: "nat index < length anchors" "anchors ! nat index = (position, controls)" "0 \<le> index"
    using assms(2) by (auto simp: at_index_def split: if_splits)
  have a: "absoluteAnchor anchors (position, controls) index = Inr (absAnchors ! nat index)"
    using absoluteAnchors_nth(2) [OF assms(1) i(1)] i by simp
  have at: "at_index absAnchors index = Some (absAnchors ! nat index)"
    using i absoluteAnchors_nth(1) [OF assms(1)] by (simp add: at_index_def)
  show "absoluteAnchor anchors (position, controls) index = Inr (the (at_index absAnchors index))"
    using a at by simp
  have "fst (absAnchors ! nat index) = position"
    by (rule absoluteAnchor_Inr(1) [OF a])
  then show "\<exists>ac. at_index absAnchors index = Some (position, ac)"
    using at by (cases "absAnchors ! nat index") simp
qed

lemma at_index_update_other:
  assumes "j \<noteq> index" and "0 \<le> index"
  shows "at_index (anchors[nat index := b]) j = at_index anchors j"
  using assms by (auto simp: at_index_def)

text \<open>The anchors derived from the example stores.\<close>

lemma absoluteAnchors_uneven: "absoluteAnchors uneven = Inr uneven_absolute"
  by (simp add: absoluteAnchors_def createIndexMemo_def uneven_def uneven_absolute_def
      absoluteAnchor_def controlOf_def addVector_def h05_def upt_rec at_index_def)

lemma absoluteAnchors_two: "absoluteAnchors two = Inr two_absolute"
  by (simp add: absoluteAnchors_def createIndexMemo_def two_def two_absolute_def
      absoluteAnchor_def controlOf_def addVector_def h05_def upt_rec at_index_def)

lemma absoluteAnchors_close: "absoluteAnchors close = Inr close_absolute"
  by (simp add: absoluteAnchors_def createIndexMemo_def close_def close_absolute_def
      absoluteAnchor_def controlOf_def upt_rec at_index_def)

subsection \<open>A control without paired anchor\<close>

lemma absoluteToRelativeControl_edge:
  assumes "at_index absAnchors index \<noteq> None"
    and "(type = Pre \<and> index = 0) \<or> (type = Post \<and> index = int (length absAnchors) - 1)"
  shows "absoluteToRelativeControl absAnchors type index absoluteControl = Inl PreconditionError"
  using assms getPairedAnchor_edge [of type index absAnchors]
  by (auto simp: absoluteToRelativeControl_def split: option.splits prod.splits)

lemma onAnchorChange_edge:
  assumes "(type = Pre \<and> index = 0) \<or> (type = Post \<and> index = int (length absAnchors) - 1)"
  shows "onAnchorChange origin zoom absAnchors type index position anchors
    = (Some TypeError, anchors)"
  using assms
  by (auto simp: onAnchorChange_def at_index_def split: option.splits prod.splits)

lemma onControlDragStart_move_edge:
  assumes "at_index absAnchors index \<noteq> None"
    and "(type = Pre \<and> index = 0) \<or> (type = Post \<and> index = int (length absAnchors) - 1)"
    and "vx zoom \<noteq> 0" "vy zoom \<noteq> 0"
  shows "onControlDragStart_move zoom absAnchors type index initialControl ratio delta metaKey
      anchors = (Some PreconditionError, anchors)"
  using assms
  by (simp add: onControlDragStart_move_def divideVector_nonzero absoluteToRelativeControl_edge)

text \<open>
  Claim C8. At an anchor that has no paired neighbour on the side of the handle (a
  \<open>pre\<close> handle at index \<open>0\<close>, a \<open>post\<close> handle at the last index), the conversion
  \<open>absoluteToRelativeControl\<close> raises the precondition error for every candidate, and
  a move of the drag leaves the handler with that error and the store as it was:
  nothing is written. A pointer session that starts with such a move ends with the
  error and the store unchanged, whatever events follow. In the earlier version
  \<open>onAnchorChange\<close> raises a TypeError on the missing neighbour, before it writes.
\<close>

theorem control_without_paired_anchor_raises:
  assumes "at_index absAnchors index \<noteq> None"
    and "(type = Pre \<and> index = 0) \<or> (type = Post \<and> index = int (length absAnchors) - 1)"
  shows "absoluteToRelativeControl absAnchors type index absoluteControl = Inl PreconditionError
    \<and> (vx zoom \<noteq> 0 \<and> vy zoom \<noteq> 0 \<longrightarrow>
         onControlDragStart_move zoom absAnchors type index initialControl ratio delta metaKey anchors
           = (Some PreconditionError, anchors)
         \<and> pointerHelper
             (\<lambda>(delta, metaKey).
                onControlDragStart_move zoom absAnchors type index initialControl ratio delta metaKey)
             ((delta, metaKey) # events) anchors
           = (Some PreconditionError, anchors))
    \<and> onAnchorChange origin zoom absAnchors type index position anchors = (Some TypeError, anchors)"
  using assms
  by (simp add: absoluteToRelativeControl_edge onAnchorChange_edge onControlDragStart_move_edge)

theorem control_without_paired_anchor_raises_witness:
  "absoluteToRelativeControl uneven_absolute Pre 0 \<lparr>vx = 3, vy = 4\<rparr> = Inl PreconditionError
   \<and> onControlDragStart_move \<lparr>vx = 1, vy = 1\<rparr> uneven_absolute Pre 0 \<lparr>vx = 3, vy = 4\<rparr> None
        \<lparr>vx = 1, vy = 1\<rparr> False uneven = (Some PreconditionError, uneven)
   \<and> onAnchorChange \<lparr>vx = 0, vy = 0\<rparr> \<lparr>vx = 1, vy = 1\<rparr> uneven_absolute Post 2 \<lparr>vx = 3, vy = 4\<rparr>
        uneven = (Some TypeError, uneven)"
proof -
  have first: "at_index uneven_absolute 0 \<noteq> None"
    and last: "at_index uneven_absolute 2 \<noteq> None"
    and edge: "int (length uneven_absolute) - 1 = 2"
    by (simp_all add: uneven_absolute_def at_index_def)
  have "(Pre = Pre \<and> (0::int) = 0) \<or> (Pre = Post \<and> 0 = int (length uneven_absolute) - 1)"
    by simp
  note pre_side = control_without_paired_anchor_raises [OF first this,
      where zoom = "\<lparr>vx = 1, vy = 1\<rparr>" and absoluteControl = "\<lparr>vx = 3, vy = 4\<rparr>"
        and initialControl = "\<lparr>vx = 3, vy = 4\<rparr>" and ratio = None
        and delta = "\<lparr>vx = 1, vy = 1\<rparr>" and metaKey = False and anchors = uneven]
  have "(Post = Pre \<and> (2::int) = 0) \<or> (Post = Post \<and> 2 = int (length uneven_absolute) - 1)"
    using edge by simp
  note post_side = control_without_paired_anchor_raises [OF last this,
      where origin = "\<lparr>vx = 0, vy = 0\<rparr>" and zoom = "\<lparr>vx = 1, vy = 1\<rparr>"
        and position = "\<lparr>vx = 3, vy = 4\<rparr>" and anchors = uneven]
  show ?thesis
    using pre_side post_side by simp
qed

subsection \<open>The clamp of a handle drag\<close>

lemma relative_x_clamped:
  fixes p q a :: real
  shows "p < q \<Longrightarrow> a \<le> p \<Longrightarrow> \<bar>p - max p (min q a)\<bar> / \<bar>p - q\<bar> = 0"
    and "p < q \<Longrightarrow> q \<le> a \<Longrightarrow> \<bar>p - max p (min q a)\<bar> / \<bar>p - q\<bar> = 1"
    and "q < p \<Longrightarrow> p \<le> a \<Longrightarrow> \<bar>p - max q (min p a)\<bar> / \<bar>p - q\<bar> = 0"
    and "q < p \<Longrightarrow> a \<le> q \<Longrightarrow> \<bar>p - max q (min p a)\<bar> / \<bar>p - q\<bar> = 1"
  by (auto simp: max_def min_def)

lemma absoluteToRelativeControl_unit:
  assumes "at_index absAnchors index = Some (position, ac)"
    and "at_index absAnchors (if type = Post then index + 1 else index - 1) = Some (paired, pc)"
    and "vx position \<noteq> vx paired"
    and "absoluteToRelativeControl absAnchors type index a = Inr r"
  shows "0 \<le> vx r \<and> vx r \<le> 1 \<and> clampedAt type (vx position) (vx paired) (vx a) (vx r)"
proof -
  let ?r = "\<lparr>vx = \<bar>vx position -
                  (if type = Post then max (vx position) (min (vx paired) (vx a))
                   else max (vx paired) (min (vx position) (vx a)))\<bar>
                / \<bar>vx position - vx paired\<bar>,
           vy = of_int \<lfloor>vy a - vy position\<rfloor>\<rparr>"
  have r: "r = ?r"
    using absoluteToRelativeControl_value [OF assms(1-3), of a] assms(4) by simp
  have b1: "0 \<le> vx ?r" and b2: "vx ?r \<le> 1"
    using relative_bounds [OF assms(3) clamp_within(1)] relative_bounds [OF assms(3) clamp_within(2)]
    by simp_all
  have c: "clampedAt type (vx position) (vx paired) (vx a) (vx ?r)"
    by (cases type) (simp_all add: clampedAt_def relative_x_clamped)
  show ?thesis
    unfolding r by (intro conjI b1 b2 c)
qed

lemma onAnchorChange_value:
  assumes "at_index absAnchors index = Some (position, ac)"
    and "at_index absAnchors (if type = Post then index + 1 else index - 1) = Some (paired, pc)"
    and "vx position \<noteq> vx paired"
    and "at_index anchors index = Some (sp, Some sc)"
    and "vx zoom \<noteq> 0"
  shows "onAnchorChange origin zoom absAnchors type index candidate anchors =
        (None, anchors[nat index := (sp, Some (withControl (Some sc) type
           \<lparr>vx = \<bar>vx position -
                   (if type = Post
                    then (let a1 = (if vx paired < (vx candidate - vx origin) / vx zoom
                                    then vx paired else (vx candidate - vx origin) / vx zoom)
                          in if a1 < vx position then vx position else a1)
                    else (let a1 = (if vx paired > (vx candidate - vx origin) / vx zoom
                                    then vx paired else (vx candidate - vx origin) / vx zoom)
                          in if a1 > vx position then vx position else a1))\<bar>
                 / \<bar>vx position - vx paired\<bar>,
             vy = of_int \<lfloor>vy candidate - vy position\<rfloor>\<rparr>))])"
  using assms setAnchors_control_value [OF assms(4)]
  by (cases type)
    (simp_all add: onAnchorChange_def unproject_def component_def js_divide_def Let_def)

lemma onAnchorChange_unit:
  assumes "at_index absAnchors index = Some (position, ac)"
    and "at_index absAnchors (if type = Post then index + 1 else index - 1) = Some (paired, pc)"
    and "vx position \<noteq> vx paired"
    and "at_index anchors index = Some (sp, Some sc)"
    and "vx zoom \<noteq> 0"
  shows "\<exists>anchors' r.
            onAnchorChange origin zoom absAnchors type index candidate anchors = (None, anchors')
          \<and> controlOf (snd (anchors' ! nat index)) type = Some r
          \<and> 0 \<le> vx r \<and> vx r \<le> 1
          \<and> clampedAt type (vx position) (vx paired)
               ((vx candidate - vx origin) / vx zoom) (vx r)"
proof -
  let ?X = "(vx candidate - vx origin) / vx zoom"
  let ?r = "\<lparr>vx = \<bar>vx position -
                   (if type = Post
                    then (let a1 = (if vx paired < ?X then vx paired else ?X)
                          in if a1 < vx position then vx position else a1)
                    else (let a1 = (if vx paired > ?X then vx paired else ?X)
                          in if a1 > vx position then vx position else a1))\<bar>
                 / \<bar>vx position - vx paired\<bar>,
             vy = of_int \<lfloor>vy candidate - vy position\<rfloor>\<rparr>"
  let ?A = "anchors[nat index := (sp, Some (withControl (Some sc) type ?r))]"
  have a: "onAnchorChange origin zoom absAnchors type index candidate anchors = (None, ?A)"
    by (rule onAnchorChange_value [OF assms])
  have w: "controlOf (snd (?A ! nat index)) type = Some ?r"
    using at_index_nth(1) [OF assms(4)] by simp
  have b1: "0 \<le> vx ?r" and b2: "vx ?r \<le> 1"
    using relative_bounds [OF assms(3) clamp_within(3)] relative_bounds [OF assms(3) clamp_within(4)]
    by (simp_all add: Let_def)
  have c: "clampedAt type (vx position) (vx paired) ?X (vx ?r)"
    by (cases type) (auto simp: clampedAt_def Let_def)
  show ?thesis
    by (rule exI [of _ ?A], rule exI [of _ ?r]) (intro conjI a w b1 b2 c)
qed

lemma onControlDragStart_move_unit:
  assumes "at_index absAnchors index = Some (position, ac)"
    and "at_index absAnchors (if type = Post then index + 1 else index - 1) = Some (paired, pc)"
    and "vx position \<noteq> vx paired"
    and "at_index anchors index = Some (sp, Some sc)"
    and "vx zoom \<noteq> 0" and "vy zoom \<noteq> 0"
  shows "\<exists>anchors' r.
            onControlDragStart_move zoom absAnchors type index initialControl ratio delta metaKey
              anchors = (None, anchors')
          \<and> controlOf (snd (anchors' ! nat index)) type = Some r
          \<and> 0 \<le> vx r \<and> vx r \<le> 1
          \<and> clampedAt type (vx position) (vx paired)
               (vx initialControl - vx delta / vx zoom) (vx r)"
proof -
  let ?a = "subtractVector initialControl \<lparr>vx = vx delta / vx zoom, vy = vy delta / vy zoom\<rparr>"
  let ?r = "\<lparr>vx = \<bar>vx position -
                  (if type = Post then max (vx position) (min (vx paired) (vx ?a))
                   else max (vx paired) (min (vx position) (vx ?a)))\<bar>
                / \<bar>vx position - vx paired\<bar>,
           vy = of_int \<lfloor>vy ?a - vy position\<rfloor>\<rparr>"
  let ?A = "case ratio of
        None \<Rightarrow> anchors[nat index := (sp, Some (withControl (Some sc) type ?r))]
      | Some k \<Rightarrow>
          if metaKey \<and> k \<noteq> 0
          then anchors[nat index :=
                 (sp, Some (withControl (Some (withControl (Some sc) type ?r)) (pairedType type)
                              \<lparr>vx = vx ?r, vy = vy ?r * k\<rparr>))]
          else anchors[nat index := (sp, Some (withControl (Some sc) type ?r))]"
  have r: "absoluteToRelativeControl absAnchors type index ?a = Inr ?r"
    by (rule absoluteToRelativeControl_value [OF assms(1-3)])
  have a: "onControlDragStart_move zoom absAnchors type index initialControl ratio delta metaKey
              anchors = (None, ?A)"
    by (rule onControlDragStart_move_value [OF assms r])
  have w: "controlOf (snd (?A ! nat index)) type = Some ?r"
    using at_index_nth(1) [OF assms(4)] by (simp split: option.splits)
  note unit = absoluteToRelativeControl_unit [OF assms(1-3) r]
  have x: "vx ?a = vx initialControl - vx delta / vx zoom"
    by (simp add: subtractVector_def)
  have b1: "0 \<le> vx ?r" and b2: "vx ?r \<le> 1"
    and c: "clampedAt type (vx position) (vx paired) (vx initialControl - vx delta / vx zoom) (vx ?r)"
    using unit unfolding x by (rule conjunct1, rule conjunct2 [THEN conjunct1], rule conjunct2 [THEN conjunct2])
  show ?thesis
    by (rule exI [of _ ?A], rule exI [of _ ?r]) (intro conjI a w b1 b2 c)
qed


text \<open>
  Claim C5. At an anchor whose paired neighbour lies at another time, a move of a
  handle drag returns without error and the relative descriptor it has written for
  the dragged handle has its \<open>x\<close> in \<open>[0, 1]\<close>. When the anchors are in time order
  and the candidate absolute \<open>x\<close> lies at or before the anchor's \<open>x\<close> (after it, for
  a \<open>pre\<close> handle) the stored \<open>x\<close> is exactly \<open>0\<close>; when it lies at or beyond the
  neighbour's \<open>x\<close> the stored \<open>x\<close> is exactly \<open>1\<close>. This holds for the move of
  \<open>onControlDragStart\<close>, whose candidate is the initial handle minus the delta
  divided by the zoom, and for \<open>onAnchorChange\<close> of the earlier version, whose candidate
  is \<open>unproject\<close> of the position it is given.
\<close>

theorem control_drag_relative_x_in_unit_interval:
  assumes "at_index absAnchors index = Some (position, ac)"
    and "at_index absAnchors (if type = Post then index + 1 else index - 1) = Some (paired, pc)"
    and "vx position \<noteq> vx paired"
    and "at_index anchors index = Some (sp, Some sc)"
    and "vx zoom \<noteq> 0" and "vy zoom \<noteq> 0"
  shows "(\<exists>anchors' r.
            onControlDragStart_move zoom absAnchors type index initialControl ratio delta metaKey
              anchors = (None, anchors')
          \<and> controlOf (snd (anchors' ! nat index)) type = Some r
          \<and> 0 \<le> vx r \<and> vx r \<le> 1
          \<and> clampedAt type (vx position) (vx paired)
               (vx initialControl - vx delta / vx zoom) (vx r))
       \<and> (\<exists>anchors' r.
            onAnchorChange origin zoom absAnchors type index candidate anchors = (None, anchors')
          \<and> controlOf (snd (anchors' ! nat index)) type = Some r
          \<and> 0 \<le> vx r \<and> vx r \<le> 1
          \<and> clampedAt type (vx position) (vx paired)
               ((vx candidate - vx origin) / vx zoom) (vx r))"
  by (intro conjI onControlDragStart_move_unit [OF assms] onAnchorChange_unit [OF assms(1-5)])

text \<open>
  On \<open>uneven\<close>, at the anchor at time \<open>10\<close> between the times \<open>0\<close> and \<open>30\<close>: a \<open>post\<close>
  candidate at \<open>x = 35\<close> is stored with \<open>x = 1\<close>, a \<open>pre\<close> candidate at \<open>x = 12\<close> with
  \<open>x = 0\<close>.
\<close>

theorem control_drag_relative_x_in_unit_interval_witness:
  "(\<exists>anchors' r.
      onControlDragStart_move \<lparr>vx = 1, vy = 1\<rparr> uneven_absolute Post 1 \<lparr>vx = 20, vy = 0\<rparr> None
        \<lparr>vx = -15, vy = -3\<rparr> False uneven = (None, anchors')
    \<and> controlOf (snd (anchors' ! nat 1)) Post = Some r \<and> vx r = 1)
   \<and> (\<exists>anchors' r.
      onAnchorChange \<lparr>vx = 0, vy = 0\<rparr> \<lparr>vx = 1, vy = 1\<rparr> uneven_absolute Pre 1 \<lparr>vx = 12, vy = 3\<rparr>
        uneven = (None, anchors')
    \<and> controlOf (snd (anchors' ! nat 1)) Pre = Some r \<and> vx r = 0)"
proof -
  have anchor: "at_index uneven_absolute 1 =
      Some (\<lparr>vx = 10, vy = 0\<rparr>, Some \<lparr>pre = Some \<lparr>vx = 5, vy = 0\<rparr>, post = Some \<lparr>vx = 20, vy = 0\<rparr>\<rparr>)"
    and after: "at_index uneven_absolute (if Post = Post then 1 + 1 else 1 - 1) =
      Some (\<lparr>vx = 30, vy = 0\<rparr>, Some \<lparr>pre = Some \<lparr>vx = 20, vy = 0\<rparr>, post = None\<rparr>)"
    and before: "at_index uneven_absolute (if Pre = Post then 1 + 1 else 1 - 1) =
      Some (\<lparr>vx = 0, vy = 0\<rparr>, Some \<lparr>pre = None, post = Some \<lparr>vx = 5, vy = 0\<rparr>\<rparr>)"
    and stored: "at_index uneven 1 = Some (\<lparr>vx = 10, vy = 0\<rparr>, Some \<lparr>pre = Some h05, post = Some h05\<rparr>)"
    by (simp_all add: uneven_absolute_def uneven_def at_index_def)
  have apart: "vx \<lparr>vx = 10, vy = 0\<rparr> \<noteq> vx \<lparr>vx = 30, vy = (0::real)\<rparr>"
    "vx \<lparr>vx = 10, vy = 0\<rparr> \<noteq> vx \<lparr>vx = 0, vy = (0::real)\<rparr>"
    and zoom: "vx \<lparr>vx = 1, vy = (1::real)\<rparr> \<noteq> 0" "vy \<lparr>vx = (1::real), vy = 1\<rparr> \<noteq> 0"
    by simp_all
  note post_drag = control_drag_relative_x_in_unit_interval
    [OF anchor after apart(1) stored zoom,
      where initialControl = "\<lparr>vx = 20, vy = 0\<rparr>" and ratio = None
        and delta = "\<lparr>vx = -15, vy = -3\<rparr>" and metaKey = False, THEN conjunct1]
  note pre_drag = control_drag_relative_x_in_unit_interval
    [OF anchor before apart(2) stored zoom,
      where origin = "\<lparr>vx = 0, vy = 0\<rparr>" and candidate = "\<lparr>vx = 12, vy = 3\<rparr>", THEN conjunct2]
  show ?thesis
    using post_drag pre_drag by (simp add: clampedAt_def) blast
qed

subsection \<open>The round trip of a handle\<close>

lemma round_trip_x:
  fixes p q v :: real
  shows "p < v \<Longrightarrow> v < q \<Longrightarrow> p + (q - p) * (\<bar>p - max p (min q v)\<bar> / \<bar>p - q\<bar>) = v"
    and "q < v \<Longrightarrow> v < p \<Longrightarrow> p + (p - q) * - (\<bar>p - max q (min p v)\<bar> / \<bar>p - q\<bar>) = v"
  by (auto simp: max_def min_def field_simps)


text \<open>
  Claim C6, as the code has it. Let \<open>v\<close> be an absolute handle whose \<open>x\<close> lies
  strictly between the anchor's \<open>x\<close> and the paired neighbour's. Converting \<open>v\<close> with
  \<open>absoluteToRelativeControl\<close>, writing the result to the store and resolving the
  anchor again gives the handle \<open>(v.x, position.y + \<lfloor>v.y - position.y\<rfloor>)\<close>: \<open>x\<close>
  comes back as it was, \<open>y\<close> is rounded down to a whole offset from the anchor. The
  round trip returns \<open>v\<close> itself when \<open>v.y - position.y\<close> is an integer.
\<close>

theorem control_round_trip_floors_y:
  assumes derived: "absoluteAnchors anchors = Inr absAnchors"
    and anchor: "at_index anchors index = Some (position, Some sc)"
    and neighbour:
      "at_index anchors (if type = Post then index + 1 else index - 1) = Some (paired, pc)"
    and between:
      "if type = Post then vx position < vx v \<and> vx v < vx paired
       else vx paired < vx v \<and> vx v < vx position"
  shows "\<exists>r anchors' c.
      absoluteToRelativeControl absAnchors type index v = Inr r
    \<and> setAnchors_control index type r anchors = Inr anchors'
    \<and> absoluteAnchor anchors' (anchors' ! nat index) index = Inr (position, Some c)
    \<and> controlOf (Some c) type =
        Some \<lparr>vx = vx v, vy = vy position + of_int \<lfloor>vy v - vy position\<rfloor>\<rparr>"
proof -
  let ?j = "if type = Post then index + 1 else index - 1"
  let ?r = "\<lparr>vx = \<bar>vx position -
                  (if type = Post then max (vx position) (min (vx paired) (vx v))
                   else max (vx paired) (min (vx position) (vx v)))\<bar>
                / \<bar>vx position - vx paired\<bar>,
           vy = of_int \<lfloor>vy v - vy position\<rfloor>\<rparr>"
  let ?a = "(position, Some (withControl (Some sc) type ?r))"
  let ?A = "anchors[nat index := ?a]"
  obtain ac where abs_anchor: "at_index absAnchors index = Some (position, ac)"
    using absoluteAnchors_at_index(2) [OF derived anchor] by blast
  obtain pc' where abs_paired: "at_index absAnchors ?j = Some (paired, pc')"
    using absoluteAnchors_at_index(2) [OF derived neighbour] by blast
  have distinct: "vx position \<noteq> vx paired"
    using between by (auto split: if_splits)
  have r: "absoluteToRelativeControl absAnchors type index v = Inr ?r"
    by (rule absoluteToRelativeControl_value [OF abs_anchor abs_paired distinct])
  have written: "setAnchors_control index type ?r anchors = Inr ?A"
    by (rule setAnchors_control_value [OF anchor])
  have nth: "?A ! nat index = ?a"
    using at_index_nth(1) [OF anchor] by simp
  have j: "?j \<noteq> index" "index - 1 \<noteq> index" "index + 1 \<noteq> index"
    by simp_all
  have nonneg: "0 \<le> index"
    using anchor by (simp add: at_index_def split: if_splits)
  have paired': "at_index ?A ?j = Some (paired, pc)"
    using neighbour by (simp only: at_index_update_other [OF j(1) nonneg])
  note before = absoluteAnchor_Inr(2,3) [OF absoluteAnchors_at_index(1) [OF derived anchor]]
  have pre_ok: "controlOf (Some (withControl (Some sc) type ?r)) Pre \<noteq> None
      \<longrightarrow> at_index ?A (index - 1) \<noteq> None"
    using before(1) paired'
    by (cases type) (simp_all add: at_index_update_other [OF j(2) nonneg] controlOf_def withControl_def)
  have post_ok: "controlOf (Some (withControl (Some sc) type ?r)) Post \<noteq> None
      \<longrightarrow> at_index ?A (index + 1) \<noteq> None"
    using before(2) paired'
    by (cases type) (simp_all add: at_index_update_other [OF j(3) nonneg] controlOf_def withControl_def)
  note resolved = absoluteAnchor_value [OF pre_ok post_ok, of position]
  let ?c = "\<lparr>pre =
                   (case controlOf (Some (withControl (Some sc) type ?r)) Pre of
                      None \<Rightarrow> None
                    | Some r \<Rightarrow>
                        (case at_index ?A (index - 1) of
                           None \<Rightarrow> None
                         | Some (prev, _) \<Rightarrow>
                             Some (addVector position
                                     \<lparr>vx = (vx position - vx prev) * (- vx r), vy = vy r\<rparr>))),
                 post =
                   (case controlOf (Some (withControl (Some sc) type ?r)) Post of
                      None \<Rightarrow> None
                    | Some r \<Rightarrow>
                        (case at_index ?A (index + 1) of
                           None \<Rightarrow> None
                         | Some (next, _) \<Rightarrow>
                             Some (addVector position
                                     \<lparr>vx = (vx next - vx position) * vx r, vy = vy r\<rparr>)))\<rparr>"
  have abs: "absoluteAnchor ?A (?A ! nat index) index = Inr (position, Some ?c)"
    unfolding nth by (rule resolved)
  have round: "controlOf (Some ?c) type =
      Some \<lparr>vx = vx v, vy = vy position + of_int \<lfloor>vy v - vy position\<rfloor>\<rparr>"
  proof (cases type)
    case Pre
    then have "at_index ?A (index - 1) = Some (paired, pc)"
      using paired' by simp
    moreover have "vx paired < vx v" "vx v < vx position"
      using between Pre by simp_all
    ultimately show ?thesis
      using Pre round_trip_x(2) [of "vx paired" "vx v" "vx position"]
      by (simp add: controlOf_def withControl_def addVector_def)
  next
    case Post
    then have "at_index ?A (index + 1) = Some (paired, pc)"
      using paired' by simp
    moreover have "vx position < vx v" "vx v < vx paired"
      using between Post by simp_all
    ultimately show ?thesis
      using Post round_trip_x(1) [of "vx position" "vx v" "vx paired"]
      by (simp add: controlOf_def withControl_def addVector_def)
  qed
  show ?thesis
    by (rule exI [of _ ?r], rule exI [of _ ?A], rule exI [of _ ?c]) (intro conjI r written abs round)
qed

text \<open>On \<open>two\<close>, the handle \<open>(5, 3)\<close> of the first anchor comes back as it was.\<close>

theorem control_round_trip_floors_y_witness:
  "\<exists>r anchors' c.
      absoluteToRelativeControl two_absolute Post 0 \<lparr>vx = 5, vy = 3\<rparr> = Inr r
    \<and> setAnchors_control 0 Post r two = Inr anchors'
    \<and> absoluteAnchor anchors' (anchors' ! nat 0) 0 = Inr (\<lparr>vx = 0, vy = 0\<rparr>, Some c)
    \<and> controlOf (Some c) Post = Some \<lparr>vx = 5, vy = 3\<rparr>"
proof -
  have anchor: "at_index two 0 = Some (\<lparr>vx = 0, vy = 0\<rparr>, Some \<lparr>pre = None, post = Some h05\<rparr>)"
    and neighbour: "at_index two (if Post = Post then 0 + 1 else 0 - 1) =
      Some (\<lparr>vx = 10, vy = 10\<rparr>, Some \<lparr>pre = Some h05, post = None\<rparr>)"
    by (simp_all add: two_def at_index_def)
  have between: "if Post = Post
      then vx \<lparr>vx = 0, vy = 0\<rparr> < vx \<lparr>vx = 5, vy = 3\<rparr> \<and> vx \<lparr>vx = 5, vy = 3\<rparr> < vx \<lparr>vx = 10, vy = (10::real)\<rparr>
      else vx \<lparr>vx = 10, vy = 10\<rparr> < vx \<lparr>vx = 5, vy = 3\<rparr> \<and> vx \<lparr>vx = 5, vy = 3\<rparr> < vx \<lparr>vx = 0, vy = (0::real)\<rparr>"
    by simp
  show ?thesis
    using control_round_trip_floors_y [OF absoluteAnchors_two anchor neighbour between]
    by simp
qed

text \<open>
  The claim has the round trip return \<open>v\<close> exactly. On \<open>two\<close>, the handle
  \<open>(5, 0.5)\<close> of the first anchor, whose \<open>x\<close> lies strictly between the times \<open>0\<close>
  and \<open>10\<close>, comes back as \<open>(5, 0)\<close>.
\<close>

theorem control_round_trip_counterexample:
  "absoluteAnchors two = Inr two_absolute
   \<and> absoluteToRelativeControl two_absolute Post 0 \<lparr>vx = 5, vy = 0.5\<rparr> = Inr \<lparr>vx = 0.5, vy = 0\<rparr>
   \<and> setAnchors_control 0 Post \<lparr>vx = 0.5, vy = 0\<rparr> two = Inr two
   \<and> absoluteAnchor two (two ! 0) 0 =
       Inr (\<lparr>vx = 0, vy = 0\<rparr>, Some \<lparr>pre = None, post = Some \<lparr>vx = 5, vy = 0\<rparr>\<rparr>)
   \<and> \<lparr>vx = 5, vy = 0\<rparr> \<noteq> \<lparr>vx = 5, vy = (0.5::real)\<rparr>"
  using absoluteAnchors_two
  by (simp add: absoluteToRelativeControl_def getPairedAnchor_def
      js_divide_def setAnchors_control_def withControl_def absoluteAnchor_def controlOf_def
      addVector_def two_def two_absolute_def h05_def at_index_def)

subsection \<open>Symmetric dragging\<close>

lemma onControlDragStart_ratio_value:
  assumes "at_index absAnchors (index - 1) = Some (prevPosition, c0)"
    and "at_index absAnchors (index + 1) = Some (nextPosition, c1)"
    and "vx prevPosition \<noteq> vx position" and "vx position \<noteq> vx nextPosition"
  shows "onControlDragStart_ratio absAnchors type position index =
     Inr (Some (if type = Pre
                then (vx position - vx nextPosition) / (vx position - vx prevPosition)
                else (vx position - vx prevPosition) / (vx position - vx nextPosition)))"
proof -
  have "getPairedAnchor absAnchors Pre index = Inr (Some prevPosition)"
    using getPairedAnchor_inner [of absAnchors Pre index prevPosition c0] assms(1) by simp
  moreover have "getPairedAnchor absAnchors Post index = Inr (Some nextPosition)"
    using getPairedAnchor_inner [of absAnchors Post index nextPosition c1] assms(2) by simp
  ultimately show ?thesis
    using assms(3,4)
    by (simp add: onControlDragStart_ratio_def subtractVector_def js_divide_def)
qed

lemma proportional:
  fixes p q n rx ry :: real
  assumes "q < p" and "p < n"
  shows "(p - q) * - rx = (n - p) * rx * ((p - q) / (p - n))"
    and "(n - p) * rx = (p - q) * - rx * ((p - n) / (p - q))"
  using assms by (simp_all add: field_simps)


text \<open>
  Claim C7, for \<open>onControlDragStart\<close>. At an anchor between a previous and a next
  anchor, in time order, the ratio computed when the drag starts is
  \<open>k = (position.x - prev.x) / (position.x - next.x)\<close> for a \<open>post\<close> handle and its
  inverse for a \<open>pre\<close> handle: the quotient of the two neighbour distances, with a
  minus sign. Every move with the meta key down writes the dragged handle \<open>r\<close> and
  then the handle of the other side, \<open>(r.x, r.y * k)\<close>. The two absolute handles
  resolved from the store after the move satisfy
  \<open>paired - position = k * (dragged - position)\<close>: they lie on one line through the
  anchor, on opposite sides of it.
\<close>

theorem symmetric_drag_keeps_tangents_proportional:
  assumes derived: "absoluteAnchors anchors = Inr absAnchors"
    and anchor: "at_index anchors index = Some (position, Some sc)"
    and prev: "at_index anchors (index - 1) = Some (prevPosition, c0)"
    and "next": "at_index anchors (index + 1) = Some (nextPosition, c1)"
    and sorted: "vx prevPosition < vx position" "vx position < vx nextPosition"
    and zoom: "vx zoom \<noteq> 0" "vy zoom \<noteq> 0"
  shows "\<exists>k anchors' r c dragged paired.
      onControlDragStart_ratio absAnchors type position index = Inr (Some k)
    \<and> k = (if type = Pre
           then (vx position - vx nextPosition) / (vx position - vx prevPosition)
           else (vx position - vx prevPosition) / (vx position - vx nextPosition))
    \<and> onControlDragStart_move zoom absAnchors type index initialControl (Some k) delta True anchors
        = (None, anchors')
    \<and> controlOf (snd (anchors' ! nat index)) type = Some r
    \<and> controlOf (snd (anchors' ! nat index)) (pairedType type) = Some \<lparr>vx = vx r, vy = vy r * k\<rparr>
    \<and> absoluteAnchor anchors' (anchors' ! nat index) index = Inr (position, Some c)
    \<and> controlOf (Some c) type = Some dragged
    \<and> controlOf (Some c) (pairedType type) = Some paired
    \<and> subtractVector paired position = multiplyVector (subtractVector dragged position) k"
proof -
  define k where "k = (if type = Pre
           then (vx position - vx nextPosition) / (vx position - vx prevPosition)
           else (vx position - vx prevPosition) / (vx position - vx nextPosition))"
  define pairedPosition where "pairedPosition = (if type = Post then nextPosition else prevPosition)"
  define a where
    "a = subtractVector initialControl \<lparr>vx = vx delta / vx zoom, vy = vy delta / vy zoom\<rparr>"
  define r where "r = \<lparr>vx = \<bar>vx position -
                  (if type = Post then max (vx position) (min (vx pairedPosition) (vx a))
                   else max (vx pairedPosition) (min (vx position) (vx a)))\<bar>
                / \<bar>vx position - vx pairedPosition\<bar>,
           vy = of_int \<lfloor>vy a - vy position\<rfloor>\<rparr>"
  define s where "s = \<lparr>vx = vx r, vy = vy r * k\<rparr>"
  define controls where
    "controls = withControl (Some (withControl (Some sc) type r)) (pairedType type) s"
  define A where "A = anchors[nat index := (position, Some controls)]"
  define dragged where "dragged = addVector position
      (if type = Post then \<lparr>vx = (vx nextPosition - vx position) * vx r, vy = vy r\<rparr>
       else \<lparr>vx = (vx position - vx prevPosition) * (- vx r), vy = vy r\<rparr>)"
  define paired where "paired = addVector position
      (if type = Post then \<lparr>vx = (vx position - vx prevPosition) * (- vx s), vy = vy s\<rparr>
       else \<lparr>vx = (vx nextPosition - vx position) * vx s, vy = vy s\<rparr>)"
  define c where "c = \<lparr>pre = (if type = Pre then Some dragged else Some paired),
                        post = (if type = Pre then Some paired else Some dragged)\<rparr>"
  obtain ac where abs_anchor: "at_index absAnchors index = Some (position, ac)"
    using absoluteAnchors_at_index(2) [OF derived anchor] by blast
  obtain c0' where abs_prev: "at_index absAnchors (index - 1) = Some (prevPosition, c0')"
    using absoluteAnchors_at_index(2) [OF derived prev] by blast
  obtain c1' where abs_next: "at_index absAnchors (index + 1) = Some (nextPosition, c1')"
    using absoluteAnchors_at_index(2) [OF derived "next"] by blast
  have k_nonzero: "k \<noteq> 0"
    using sorted by (simp add: k_def)
  have ratio: "onControlDragStart_ratio absAnchors type position index = Inr (Some k)"
    using onControlDragStart_ratio_value [OF abs_prev abs_next] sorted by (simp add: k_def)
  have abs_paired: "at_index absAnchors (if type = Post then index + 1 else index - 1)
      = Some (pairedPosition, if type = Post then c1' else c0')"
    using abs_prev abs_next by (simp add: pairedPosition_def)
  have distinct: "vx position \<noteq> vx pairedPosition"
    using sorted by (simp add: pairedPosition_def)
  have r: "absoluteToRelativeControl absAnchors type index a = Inr r"
    unfolding r_def by (rule absoluteToRelativeControl_value [OF abs_anchor abs_paired distinct])
  have moved: "onControlDragStart_move zoom absAnchors type index initialControl (Some k) delta True
      anchors = (None, A)"
    using onControlDragStart_move_value [OF abs_anchor abs_paired distinct anchor zoom
        r [unfolded a_def], of "Some k" True] k_nonzero
    by (simp add: A_def controls_def s_def)
  have len: "nat index < length anchors" and nonneg: "0 \<le> index"
    using anchor by (simp_all add: at_index_def split: if_splits)
  have nth: "A ! nat index = (position, Some controls)"
    using len by (simp add: A_def)
  have controls_type: "controlOf (Some controls) type = Some r"
    and controls_paired: "controlOf (Some controls) (pairedType type) = Some s"
    by (simp_all add: controls_def)
  have c_dragged: "controlOf (snd (A ! nat index)) type = Some r"
    unfolding nth using controls_type by simp
  have c_paired: "controlOf (snd (A ! nat index)) (pairedType type) = Some \<lparr>vx = vx r, vy = vy r * k\<rparr>"
    unfolding nth using controls_paired by (simp add: s_def)
  have prev': "at_index A (index - 1) = Some (prevPosition, c0)"
    using prev by (simp add: A_def at_index_update_other [OF _ nonneg])
  have next': "at_index A (index + 1) = Some (nextPosition, c1)"
    using "next" by (simp add: A_def at_index_update_other [OF _ nonneg])
  have both: "controlOf (Some controls) Pre = (if type = Pre then Some r else Some s)"
    "controlOf (Some controls) Post = (if type = Pre then Some s else Some r)"
    using controls_type controls_paired by (cases type; simp add: pairedType_def)+
  have derived': "absoluteAnchor A (A ! nat index) index = Inr (position, Some c)"
    unfolding nth
    using absoluteAnchor_value [of "Some controls" A index position]
    by (cases type) (simp_all add: prev' next' both c_def dragged_def paired_def)
  have a_dragged: "controlOf (Some c) type = Some dragged"
    by (cases type) (simp_all add: controlOf_def c_def)
  have a_paired: "controlOf (Some c) (pairedType type) = Some paired"
    by (cases type) (simp_all add: controlOf_def pairedType_def c_def)
  have collinear: "subtractVector paired position = multiplyVector (subtractVector dragged position) k"
    using proportional [OF sorted, of "vx r"]
    by (cases type)
      (simp_all add: subtractVector_def multiplyVector_def addVector_def paired_def dragged_def
        s_def k_def)
  show ?thesis
    by (rule exI [of _ k], rule exI [of _ A], rule exI [of _ r], rule exI [of _ c],
        rule exI [of _ dragged], rule exI [of _ paired])
      (intro conjI ratio k_def moved c_dragged c_paired derived' a_dragged a_paired collinear)
qed

text \<open>On \<open>uneven\<close>, a drag of the \<open>post\<close> handle of the middle anchor: \<open>k = - 1 / 2\<close>.\<close>

theorem symmetric_drag_keeps_tangents_proportional_witness:
  "\<exists>anchors' r c dragged paired.
      onControlDragStart_ratio uneven_absolute Post \<lparr>vx = 10, vy = 0\<rparr> 1 = Inr (Some (- (1 / 2)))
    \<and> onControlDragStart_move \<lparr>vx = 1, vy = 1\<rparr> uneven_absolute Post 1 \<lparr>vx = 20, vy = 0\<rparr>
          (Some (- (1 / 2))) \<lparr>vx = -4, vy = -3\<rparr> True uneven = (None, anchors')
    \<and> controlOf (snd (anchors' ! nat 1)) Post = Some r
    \<and> controlOf (snd (anchors' ! nat 1)) (pairedType Post) = Some \<lparr>vx = vx r, vy = vy r * (- (1 / 2))\<rparr>
    \<and> absoluteAnchor anchors' (anchors' ! nat 1) 1 = Inr (\<lparr>vx = 10, vy = 0\<rparr>, Some c)
    \<and> controlOf (Some c) Post = Some dragged
    \<and> controlOf (Some c) (pairedType Post) = Some paired
    \<and> subtractVector paired \<lparr>vx = 10, vy = 0\<rparr>
        = multiplyVector (subtractVector dragged \<lparr>vx = 10, vy = 0\<rparr>) (- (1 / 2))"
proof -
  have anchor: "at_index uneven 1 = Some (\<lparr>vx = 10, vy = 0\<rparr>, Some \<lparr>pre = Some h05, post = Some h05\<rparr>)"
    and before: "at_index uneven (1 - 1) = Some (\<lparr>vx = 0, vy = 0\<rparr>, Some \<lparr>pre = None, post = Some h05\<rparr>)"
    and after: "at_index uneven (1 + 1) = Some (\<lparr>vx = 30, vy = 0\<rparr>, Some \<lparr>pre = Some h05, post = None\<rparr>)"
    by (simp_all add: uneven_def at_index_def)
  have sorted: "vx \<lparr>vx = 0, vy = 0\<rparr> < vx \<lparr>vx = 10, vy = (0::real)\<rparr>"
    "vx \<lparr>vx = 10, vy = 0\<rparr> < vx \<lparr>vx = 30, vy = (0::real)\<rparr>"
    and zoom: "vx \<lparr>vx = 1, vy = (1::real)\<rparr> \<noteq> 0" "vy \<lparr>vx = (1::real), vy = 1\<rparr> \<noteq> 0"
    by simp_all
  show ?thesis
    using symmetric_drag_keeps_tangents_proportional
      [OF absoluteAnchors_uneven anchor before after sorted zoom,
        where type = Post and initialControl = "\<lparr>vx = 20, vy = 0\<rparr>"
          and delta = "\<lparr>vx = -4, vy = -3\<rparr>"]
    by simp
qed

text \<open>
  The claim names the \<open>Anchor\<close> component of the earlier version too. There the
  opposite handle is not scaled by a ratio: its absolute position minus \<open>delta * -1\<close>
  is converted by \<open>onAnchorChange\<close> like a dragged handle. On \<open>uneven\<close>, dragging the
  \<open>post\<close> handle of the middle anchor from \<open>(20, 0)\<close> by the pointer delta \<open>(-4, -3)\<close>
  with the meta key stores \<open>post = (0.7, 3)\<close> and \<open>pre = (0.9, -3)\<close>: the relative \<open>x\<close>
  differ, and the resolved tangents \<open>(1, -3) - (10, 0)\<close> and \<open>(24, 3) - (10, 0)\<close> are not
  on one line.
\<close>

theorem symmetric_drag_counterexample:
  "absoluteAnchors uneven = Inr uneven_absolute
   \<and> Handle_onPointerMove \<lparr>vx = 1, vy = 1\<rparr> \<lparr>vx = 20, vy = 0\<rparr> \<lparr>vx = -4, vy = -3\<rparr>
       = Inr (\<lparr>vx = 24, vy = 3\<rparr>, \<lparr>vx = -4, vy = -3\<rparr>)
   \<and> Anchor_onChange \<lparr>vx = 0, vy = 0\<rparr> \<lparr>vx = 1, vy = 1\<rparr> uneven_absolute 1 Post
        (Some \<lparr>vx = 5, vy = 0\<rparr>) \<lparr>vx = 24, vy = 3\<rparr> \<lparr>vx = -4, vy = -3\<rparr> True uneven
       = (None,
          [uneven ! 0,
           (\<lparr>vx = 10, vy = 0\<rparr>,
            Some \<lparr>pre = Some \<lparr>vx = 0.9, vy = -3\<rparr>, post = Some \<lparr>vx = 0.7, vy = 3\<rparr>\<rparr>),
           uneven ! 2])
   \<and> absoluteAnchor
        [uneven ! 0,
         (\<lparr>vx = 10, vy = 0\<rparr>,
          Some \<lparr>pre = Some \<lparr>vx = 0.9, vy = -3\<rparr>, post = Some \<lparr>vx = 0.7, vy = 3\<rparr>\<rparr>),
         uneven ! 2]
        (\<lparr>vx = 10, vy = 0\<rparr>,
         Some \<lparr>pre = Some \<lparr>vx = 0.9, vy = -3\<rparr>, post = Some \<lparr>vx = 0.7, vy = 3\<rparr>\<rparr>) 1
       = Inr (\<lparr>vx = 10, vy = 0\<rparr>,
              Some \<lparr>pre = Some \<lparr>vx = 1, vy = -3\<rparr>, post = Some \<lparr>vx = 24, vy = 3\<rparr>\<rparr>)
   \<and> (0.9::real) \<noteq> 0.7
   \<and> (1 - 10) * (3 - 0) \<noteq> (-3 - 0) * (24 - (10::real))"
  using absoluteAnchors_uneven
  by (simp add: Handle_onPointerMove_def divideVector_def js_divide_def subtractVector_def
      multiplyVector_def Anchor_onChange_def onAnchorChange_def unproject_def component_def
      setAnchors_control_def withControl_def pairedType_def absoluteAnchor_def controlOf_def
      addVector_def uneven_def uneven_absolute_def h05_def at_index_def)

subsection \<open>The drag of an anchor\<close>

text \<open>
  When the two neighbours are at least two units apart, the two clamps of
  \<open>onPositionChange\<close> leave the anchor at least one unit from each.
\<close>

lemma onPositionChange_clamped:
  assumes "at_index absAnchors (index - 1) = Some (p, pc)"
    and "at_index absAnchors (index + 1) = Some (n, nc)"
    and "vx p + 2 \<le> vx n"
    and "at_index anchors index = Some (sp, sc)"
  shows "\<exists>X. onPositionChange absAnchors index position anchors
        = (None, anchors[nat index := (position\<lparr>vx := X\<rparr>, sc)])
    \<and> vx p + 1 \<le> X \<and> X \<le> vx n - 1"
proof -
  define X1 where "X1 = (if vx position - 1 < vx p then vx p + 1 else vx position)"
  define X2 where "X2 = (if X1 + 1 > vx n then vx n - 1 else X1)"
  have "onPositionChange absAnchors index position anchors
        = (None, anchors[nat index := (position\<lparr>vx := X2\<rparr>, sc)])"
    using assms(1,2,4)
    by (simp add: onPositionChange_def setAnchors_position_def Let_def X1_def X2_def)
  moreover have "vx p + 1 \<le> X2 \<and> X2 \<le> vx n - 1"
    using assms(3) by (auto simp: X1_def X2_def)
  ultimately show ?thesis
    by blast
qed

text \<open>
  Claim C4 has every move of a position drag keep the anchor at least one unit after
  the previous anchor and one unit before the next one, so that the anchors stay
  strictly increasing in \<open>x\<close>. The handlers clamp against the previous anchor first
  and against the next one second. On \<open>close\<close>, whose anchors are at the times \<open>0\<close>,
  \<open>0.5\<close> and \<open>1\<close>, a drag of the middle anchor by the pointer delta \<open>(3, 0)\<close> has the
  candidate \<open>x = - 2.5\<close>, which the first clamp moves to \<open>0 + 1 = 1\<close> and the second
  to \<open>1 - 1 = 0\<close>, the time of the previous anchor: the store is no longer in time
  order. Both versions of the handler do so. The neighbours
  of the moved anchor are less than two units apart here.
\<close>

theorem position_drag_breaks_time_order:
  "timeSorted close
   \<and> absoluteAnchors close = Inr close_absolute
   \<and> Handle_onPointerDown_position \<lparr>vx = 1, vy = 1\<rparr> 1 \<lparr>vx = 0.5, vy = 0\<rparr> [\<lparr>vx = 3, vy = 0\<rparr>] close
       = (None, [(\<lparr>vx = 0, vy = 0\<rparr>, None), (\<lparr>vx = 0, vy = 0\<rparr>, None), (\<lparr>vx = 1, vy = 0\<rparr>, None)])
   \<and> onPositionDragStart \<lparr>vx = 1, vy = 1\<rparr> close_absolute (close_absolute ! 1) 1 [\<lparr>vx = 3, vy = 0\<rparr>] close
       = (None, [(\<lparr>vx = 0, vy = 0\<rparr>, None), (\<lparr>vx = 0, vy = 0\<rparr>, None), (\<lparr>vx = 1, vy = 0\<rparr>, None)])
   \<and> \<not> timeSorted [(\<lparr>vx = 0, vy = 0\<rparr>, None), (\<lparr>vx = 0, vy = 0\<rparr>, None), (\<lparr>vx = 1, vy = 0\<rparr>, None)]"
  using absoluteAnchors_close
  by (simp add: timeSorted_def anchorTimes_def Handle_onPointerDown_position_def Handle_onPointerMove_def
      divideVector_def js_divide_def subtractVector_def onPositionChange_def
      setAnchors_position_def onPositionDragStart_def onPositionDragStart_move_def
      getPairedAnchor_def close_def close_absolute_def at_index_def)

section \<open>Properties of \<^verbatim>\<open>addAnchor\<close>\<close>

lemma findIndex_takeWhile:
  "findIndex P xs =
     (if length (takeWhile (\<lambda>x. \<not> P x) xs) < length xs
      then int (length (takeWhile (\<lambda>x. \<not> P x) xs)) else -1)"
  by (induction xs) (auto simp: Let_def)

lemma findIndex_insertionIndex:
  "findIndex (\<lambda>(anchor, _). vx anchor > time) anchors =
     (if insertionIndex time anchors < length anchors then int (insertionIndex time anchors) else -1)"
proof -
  have "(\<lambda>a. \<not> (case a of (anchor, _) \<Rightarrow> vx anchor > time)) = (\<lambda>a::Anchor. vx (fst a) \<le> time)"
    by (auto simp: fun_eq_iff)
  then show ?thesis
    using findIndex_takeWhile [of "\<lambda>(anchor, _). vx anchor > time" anchors]
    by (simp add: insertionIndex_def)
qed

lemma insertionIndex_le: "insertionIndex time anchors \<le> length anchors"
  by (simp add: insertionIndex_def length_takeWhile_le)

lemma insertionIndex_before:
  assumes "j < insertionIndex time anchors"
  shows "vx (fst (anchors ! j)) \<le> time"
  using assms nth_mem [of j "takeWhile (\<lambda>a. vx (fst a) \<le> time) anchors"]
  by (auto simp: insertionIndex_def takeWhile_nth dest: set_takeWhileD)

lemma insertionIndex_at:
  assumes "insertionIndex time anchors < length anchors"
  shows "time < vx (fst (anchors ! insertionIndex time anchors))"
  using nth_length_takeWhile [of "\<lambda>a. vx (fst a) \<le> time" anchors] assms
  by (simp add: insertionIndex_def)

lemma timeSorted_nth:
  assumes "timeSorted anchors" and "i < j" and "j < length anchors"
  shows "vx (fst (anchors ! i)) < vx (fst (anchors ! j))"
  using assms by (auto simp: timeSorted_def anchorTimes_def sorted_wrt_iff_nth_less)

lemma insertionIndex_after:
  assumes "timeSorted anchors" and "insertionIndex time anchors \<le> j" and "j < length anchors"
  shows "time < vx (fst (anchors ! j))"
proof (cases "insertionIndex time anchors = j")
  case True
  then show ?thesis
    using insertionIndex_at [of time anchors] assms(3) by simp
next
  case False
  then have "insertionIndex time anchors < j"
    using assms(2) by simp
  from timeSorted_nth [OF assms(1) this assms(3)] insertionIndex_at [of time anchors] assms(3) this
  show ?thesis
    by simp
qed

lemma splice_insert:
  assumes "k \<le> length xs"
  shows "spliceArray (int k) 0 items xs = take k xs @ items @ drop k xs"
  using assms by (simp add: spliceArray_def Let_def min_def)

lemma inserted_sorted:
  assumes "timeSorted anchors" and "time \<notin> set (anchorTimes anchors)"
  shows "sorted_wrt (<) (take (insertionIndex time anchors) (anchorTimes anchors) @ [time]
      @ drop (insertionIndex time anchors) (anchorTimes anchors))"
proof -
  let ?k = "insertionIndex time anchors"
  have sorted: "sorted_wrt (<) (anchorTimes anchors)"
    using assms(1) by (simp add: timeSorted_def)
  have before: "\<forall>t\<in>set (take ?k (anchorTimes anchors)). t < time"
  proof
    fix t
    assume "t \<in> set (take ?k (anchorTimes anchors))"
    then obtain j where j: "j < ?k" "j < length anchors" "t = vx (fst (anchors ! j))"
      by (auto simp: in_set_conv_nth anchorTimes_def)
    then have "t \<le> time"
      using insertionIndex_before [of j time anchors] by simp
    moreover have "t \<in> set (anchorTimes anchors)"
      using j by (auto simp: anchorTimes_def)
    ultimately show "t < time"
      using assms(2) by (cases "t = time") auto
  qed
  have after: "\<forall>t\<in>set (drop ?k (anchorTimes anchors)). time < t"
  proof
    fix t
    assume "t \<in> set (drop ?k (anchorTimes anchors))"
    then obtain j where j: "j < length (drop ?k (anchorTimes anchors))"
      "t = drop ?k (anchorTimes anchors) ! j"
      by (auto simp: in_set_conv_nth)
    then have "?k + j < length anchors" and "t = vx (fst (anchors ! (?k + j)))"
      by (simp_all add: anchorTimes_def)
    then show "time < t"
      using insertionIndex_after [OF assms(1), of time "?k + j"] by simp
  qed
  have "sorted_wrt (<) (take ?k (anchorTimes anchors))" "sorted_wrt (<) (drop ?k (anchorTimes anchors))"
    using sorted by (simp_all add: sorted_wrt_take sorted_wrt_drop)
  then show ?thesis
    using before after by (fastforce simp: sorted_wrt_append)
qed

lemma anchorTimes_insert:
  "anchorTimes (take k anchors @ (\<lparr>vx = time, vy = v\<rparr>, c) # drop k anchors)
    = take k (anchorTimes anchors) @ time # drop k (anchorTimes anchors)"
  by (simp add: anchorTimes_def take_map drop_map)

lemma insertionIndex_strictly_before:
  assumes "time \<notin> set (anchorTimes anchors)" and "j < insertionIndex time anchors"
  shows "vx (fst (anchors ! j)) < time"
proof -
  have "j < length anchors"
    using assms(2) insertionIndex_le [of time anchors] by simp
  then have "vx (fst (anchors ! j)) \<in> set (anchorTimes anchors)"
    by (auto simp: anchorTimes_def)
  then show ?thesis
    using insertionIndex_before [OF assms(2)] assms(1) by (cases "vx (fst (anchors ! j)) = time") auto
qed

text \<open>
  The three outcomes of the default \<^verbatim>\<open>value = getValue(time)\<close>: it raises, it
  has no value, or it has the value \<open>y\<close>.
\<close>

lemma addAnchor_raises:
  assumes "(case value of None \<Rightarrow> getValue amount anchors time | Some v \<Rightarrow> Inr (Some v)) = Inl e"
  shows "addAnchor amount time value anchors = Inl e"
    and "addAnchor_edges amount time value anchors = Inl e"
  using assms by (simp_all add: addAnchor_def addAnchor_edges_def)

lemma addAnchor_no_value:
  assumes "(case value of None \<Rightarrow> getValue amount anchors time | Some v \<Rightarrow> Inr (Some v)) = Inr None"
  shows "addAnchor amount time value anchors =
     (if insertionIndex time anchors < length anchors then Inl UndefinedValue else Inr anchors)"
  using assms by (simp add: addAnchor_def findIndex_insertionIndex Let_def)

lemma addAnchor_edges_no_value:
  assumes "(case value of None \<Rightarrow> getValue amount anchors time | Some v \<Rightarrow> Inr (Some v)) = Inr None"
  shows "addAnchor_edges amount time value anchors =
     (if anchors = [] then Inl TypeError else Inl UndefinedValue)"
proof (cases "anchors = []")
  case True
  show ?thesis
    using assms unfolding True by (simp add: addAnchor_edges_def at_index_def)
next
  case nonempty: False
  have at_first: "at_index anchors 0 = Some (hd anchors)"
    using nonempty by (cases anchors; simp add: at_index_def)
  have at_last: "at_index anchors (int (length anchors) - 1) = Some (last anchors)"
    using nonempty by (auto simp: at_index_def last_conv_nth nat_diff_distrib' of_nat_diff)
  show ?thesis
    using assms nonempty at_first at_last
    by (cases "hd anchors"; cases "last anchors")
      (simp add: addAnchor_edges_def findIndex_insertionIndex Let_def)
qed

lemma addAnchor_value:
  assumes "(case value of None \<Rightarrow> getValue amount anchors time | Some v \<Rightarrow> Inr (Some v))
      = Inr (Some y)"
  shows "addAnchor amount time value anchors =
     Inr (if insertionIndex time anchors < length anchors
          then take (insertionIndex time anchors) anchors
               @ [(\<lparr>vx = time, vy = y\<rparr>,
                   Some \<lparr>pre = Some \<lparr>vx = 0.5, vy = 0\<rparr>, post = Some \<lparr>vx = 0.5, vy = 0\<rparr>\<rparr>)]
               @ drop (insertionIndex time anchors) anchors
          else anchors)"
  using assms splice_insert [OF insertionIndex_le [of time anchors]]
  by (simp add: addAnchor_def findIndex_insertionIndex Let_def)

lemma addAnchor_edges_value:
  assumes default: "(case value of None \<Rightarrow> getValue amount anchors time | Some v \<Rightarrow> Inr (Some v))
      = Inr (Some y)"
  shows "addAnchor_edges amount time value anchors =
     (if anchors = [] then Inl TypeError
      else if insertionIndex time anchors = length anchors
      then Inr (butlast anchors
                @ [(fst (last anchors), Some (withControl (snd (last anchors)) Post \<lparr>vx = 0.5, vy = 0\<rparr>)),
                   (\<lparr>vx = time, vy = y\<rparr>,
                    Some \<lparr>pre = Some \<lparr>vx = 0.5, vy = 0\<rparr>, post = None\<rparr>)])
      else if insertionIndex time anchors = 0
      then Inr ((\<lparr>vx = time, vy = y\<rparr>,
                 Some \<lparr>pre = None, post = Some \<lparr>vx = 0.5, vy = 0\<rparr>\<rparr>)
                # (fst (hd anchors), Some (withControl (snd (hd anchors)) Pre \<lparr>vx = 0.5, vy = 0\<rparr>))
                # tl anchors)
      else Inr (take (insertionIndex time anchors) anchors
                @ [(\<lparr>vx = time, vy = y\<rparr>,
                    Some \<lparr>pre = Some \<lparr>vx = 0.5, vy = 0\<rparr>, post = Some \<lparr>vx = 0.5, vy = 0\<rparr>\<rparr>)]
                @ drop (insertionIndex time anchors) anchors))"
proof (cases "anchors = []")
  case True
  show ?thesis
    using default unfolding True by (simp add: addAnchor_edges_def at_index_def)
next
  case nonempty: False
  have at_first: "at_index anchors 0 = Some (hd anchors)"
    and first: "anchors[0 := b] = b # tl anchors" for b
    using nonempty by (cases anchors; simp add: at_index_def)+
  have last: "anchors[length anchors - 1 := b] = butlast anchors @ [b]" for b
    using nonempty by (induction anchors) (auto split: nat.splits)
  have at_last: "at_index anchors (int (length anchors) - 1) = Some (last anchors)"
    using nonempty by (auto simp: at_index_def last_conv_nth nat_diff_distrib' of_nat_diff)
  note k = insertionIndex_le [of time anchors]
  show ?thesis
  proof (cases "insertionIndex time anchors = length anchors")
    case True
    then show ?thesis
      using default nonempty last at_last
      by (cases "last anchors") (simp add: addAnchor_edges_def findIndex_insertionIndex Let_def)
  next
    case inner: False
    then have lt: "insertionIndex time anchors < length anchors"
      using k by simp
    show ?thesis
    proof (cases "insertionIndex time anchors = 0")
      case True
      then show ?thesis
        using default lt nonempty at_first first
        by (cases "hd anchors") (simp add: addAnchor_edges_def findIndex_insertionIndex Let_def)
    next
      case False
      then show ?thesis
        using default lt inner nonempty splice_insert [OF k]
        by (simp add: addAnchor_edges_def findIndex_insertionIndex Let_def)
    qed
  qed
qed

lemma spliced_sorted:
  assumes "timeSorted anchors" and "time \<notin> set (anchorTimes anchors)"
  shows "timeSorted
     (if insertionIndex time anchors < length anchors
      then take (insertionIndex time anchors) anchors
           @ [(\<lparr>vx = time, vy = y\<rparr>, c)]
           @ drop (insertionIndex time anchors) anchors
      else anchors)"
  using inserted_sorted [OF assms] assms(1)
  by (simp add: timeSorted_def anchorTimes_insert)

lemma addAnchor_edges_sorted:
  assumes "timeSorted anchors" and "time \<notin> set (anchorTimes anchors)" and "anchors \<noteq> []"
    and default: "(case value of None \<Rightarrow> getValue amount anchors time | Some v \<Rightarrow> Inr (Some v))
      = Inr (Some y)"
  shows "\<exists>anchors'. addAnchor_edges amount time value anchors = Inr anchors' \<and> timeSorted anchors'"
proof -
  let ?k = "insertionIndex time anchors"
  note sorted = inserted_sorted [OF assms(1,2)]
  note result = addAnchor_edges_value [OF default]
  have whole: "map (\<lambda>a. vx (fst a)) (butlast anchors) @ vx (fst (last anchors)) # ts
      = map (\<lambda>a. vx (fst a)) anchors @ ts" for ts
    using assms(3) by (induction anchors) auto
  have first: "vx (fst (hd anchors)) # map (\<lambda>a. vx (fst a)) (tl anchors)
      = map (\<lambda>a. vx (fst a)) anchors"
    using assms(3) by (cases anchors) auto
  show ?thesis
  proof (cases "?k = length anchors")
    case True
    then show ?thesis
      using sorted assms(3)
      by (simp add: result timeSorted_def anchorTimes_def whole)
  next
    case inner: False
    show ?thesis
    proof (cases "?k = 0")
      case True
      then show ?thesis
        using sorted assms(3) inner
        by (simp add: result timeSorted_def anchorTimes_def first)
    next
      case False
      then show ?thesis
        using sorted assms(3) inner
        by (simp add: result timeSorted_def anchorTimes_insert)
    qed
  qed
qed

text \<open>
  Claim C3, as the code has it. Let the store be in time order and let \<open>time\<close> be
  the time of none of its anchors; \<open>k\<close> is the insertion index: the anchors before
  index \<open>k\<close> are before \<open>time\<close>, those from \<open>k\<close> on are after it. When \<open>value\<close> is not
  given, it is \<open>getValue time\<close> on the store as it was before the insertion, \<open>d\<close>
  below.

  When \<open>getValue\<close> raises, both versions of \<open>addAnchor\<close> raise with it, and nothing is
  written. When it gives the value \<open>y\<close>, or when \<open>value = y\<close> is given, the position of the
  new anchor is \<open>(time, y)\<close>. Between two anchors \<open>addAnchor\<close> splices the new anchor in
  at \<open>k\<close>, immediately before the first anchor after \<open>time\<close>, with both handles
  \<open>(0.5, 0)\<close>, and leaves the store as it is when no anchor lies after \<open>time\<close>; the
  store that results is in time order. \<open>addAnchor_edges\<close> does the same between two
  anchors; at the two ends of a store that is not empty it appends (prepends) the new
  anchor with the one handle that faces the store, and sets the facing handle of the
  anchor that was last (first) to \<open>(0.5, 0)\<close>, and the store that results is in time
  order; on the empty store it raises a TypeError. When \<open>getValue\<close> has no value at
  \<open>time\<close>, neither has the \<open>y\<close> of an anchor that is inserted.
\<close>

theorem addAnchor_inserts_in_time_order:
  assumes "timeSorted anchors" and "time \<notin> set (anchorTimes anchors)"
    and "(case value of None \<Rightarrow> getValue amount anchors time | Some v \<Rightarrow> Inr (Some v)) = d"
  shows "(\<forall>j < insertionIndex time anchors. vx (fst (anchors ! j)) < time)
    \<and> (\<forall>j. insertionIndex time anchors \<le> j \<and> j < length anchors \<longrightarrow> time < vx (fst (anchors ! j)))
    \<and> (case d of
         Inl e \<Rightarrow>
           addAnchor amount time value anchors = Inl e
           \<and> addAnchor_edges amount time value anchors = Inl e
       | Inr None \<Rightarrow>
           (0 < insertionIndex time anchors \<or> anchors = [] \<longrightarrow>
              addAnchor amount time value anchors =
                (if insertionIndex time anchors < length anchors
                 then Inl UndefinedValue else Inr anchors))
           \<and> addAnchor_edges amount time value anchors =
               (if anchors = [] then Inl TypeError else Inl UndefinedValue)
       | Inr (Some y) \<Rightarrow>
           (0 < insertionIndex time anchors \<or> anchors = [] \<longrightarrow>
              addAnchor amount time value anchors =
                Inr (if insertionIndex time anchors < length anchors
                     then take (insertionIndex time anchors) anchors
                          @ [(\<lparr>vx = time, vy = y\<rparr>,
                              Some \<lparr>pre = Some \<lparr>vx = 0.5, vy = 0\<rparr>,
                                    post = Some \<lparr>vx = 0.5, vy = 0\<rparr>\<rparr>)]
                          @ drop (insertionIndex time anchors) anchors
                     else anchors)
              \<and> timeSorted
                  (if insertionIndex time anchors < length anchors
                   then take (insertionIndex time anchors) anchors
                        @ [(\<lparr>vx = time, vy = y\<rparr>,
                            Some \<lparr>pre = Some \<lparr>vx = 0.5, vy = 0\<rparr>,
                                  post = Some \<lparr>vx = 0.5, vy = 0\<rparr>\<rparr>)]
                        @ drop (insertionIndex time anchors) anchors
                   else anchors))
           \<and> addAnchor_edges amount time value anchors =
               (if anchors = [] then Inl TypeError
                else if insertionIndex time anchors = length anchors
                then Inr (butlast anchors
                          @ [(fst (last anchors),
                              Some (withControl (snd (last anchors)) Post \<lparr>vx = 0.5, vy = 0\<rparr>)),
                             (\<lparr>vx = time, vy = y\<rparr>,
                              Some \<lparr>pre = Some \<lparr>vx = 0.5, vy = 0\<rparr>, post = None\<rparr>)])
                else if insertionIndex time anchors = 0
                then Inr ((\<lparr>vx = time, vy = y\<rparr>,
                           Some \<lparr>pre = None, post = Some \<lparr>vx = 0.5, vy = 0\<rparr>\<rparr>)
                          # (fst (hd anchors),
                             Some (withControl (snd (hd anchors)) Pre \<lparr>vx = 0.5, vy = 0\<rparr>))
                          # tl anchors)
                else Inr (take (insertionIndex time anchors) anchors
                          @ [(\<lparr>vx = time, vy = y\<rparr>,
                              Some \<lparr>pre = Some \<lparr>vx = 0.5, vy = 0\<rparr>,
                                    post = Some \<lparr>vx = 0.5, vy = 0\<rparr>\<rparr>)]
                          @ drop (insertionIndex time anchors) anchors))
           \<and> (anchors \<noteq> [] \<longrightarrow>
                (\<exists>anchors'. addAnchor_edges amount time value anchors = Inr anchors'
                   \<and> timeSorted anchors')))"
proof (intro conjI allI impI)
  fix j
  assume "j < insertionIndex time anchors"
  then show "vx (fst (anchors ! j)) < time"
    by (rule insertionIndex_strictly_before [OF assms(2)])
next
  fix j
  assume "insertionIndex time anchors \<le> j \<and> j < length anchors"
  then show "time < vx (fst (anchors ! j))"
    using insertionIndex_after [OF assms(1), of time j] by simp
next
  show "case d of
         Inl e \<Rightarrow>
           addAnchor amount time value anchors = Inl e
           \<and> addAnchor_edges amount time value anchors = Inl e
       | Inr None \<Rightarrow>
           (0 < insertionIndex time anchors \<or> anchors = [] \<longrightarrow>
              addAnchor amount time value anchors =
                (if insertionIndex time anchors < length anchors
                 then Inl UndefinedValue else Inr anchors))
           \<and> addAnchor_edges amount time value anchors =
               (if anchors = [] then Inl TypeError else Inl UndefinedValue)
       | Inr (Some y) \<Rightarrow>
           (0 < insertionIndex time anchors \<or> anchors = [] \<longrightarrow>
              addAnchor amount time value anchors =
                Inr (if insertionIndex time anchors < length anchors
                     then take (insertionIndex time anchors) anchors
                          @ [(\<lparr>vx = time, vy = y\<rparr>,
                              Some \<lparr>pre = Some \<lparr>vx = 0.5, vy = 0\<rparr>,
                                    post = Some \<lparr>vx = 0.5, vy = 0\<rparr>\<rparr>)]
                          @ drop (insertionIndex time anchors) anchors
                     else anchors)
              \<and> timeSorted
                  (if insertionIndex time anchors < length anchors
                   then take (insertionIndex time anchors) anchors
                        @ [(\<lparr>vx = time, vy = y\<rparr>,
                            Some \<lparr>pre = Some \<lparr>vx = 0.5, vy = 0\<rparr>,
                                  post = Some \<lparr>vx = 0.5, vy = 0\<rparr>\<rparr>)]
                        @ drop (insertionIndex time anchors) anchors
                   else anchors))
           \<and> addAnchor_edges amount time value anchors =
               (if anchors = [] then Inl TypeError
                else if insertionIndex time anchors = length anchors
                then Inr (butlast anchors
                          @ [(fst (last anchors),
                              Some (withControl (snd (last anchors)) Post \<lparr>vx = 0.5, vy = 0\<rparr>)),
                             (\<lparr>vx = time, vy = y\<rparr>,
                              Some \<lparr>pre = Some \<lparr>vx = 0.5, vy = 0\<rparr>, post = None\<rparr>)])
                else if insertionIndex time anchors = 0
                then Inr ((\<lparr>vx = time, vy = y\<rparr>,
                           Some \<lparr>pre = None, post = Some \<lparr>vx = 0.5, vy = 0\<rparr>\<rparr>)
                          # (fst (hd anchors),
                             Some (withControl (snd (hd anchors)) Pre \<lparr>vx = 0.5, vy = 0\<rparr>))
                          # tl anchors)
                else Inr (take (insertionIndex time anchors) anchors
                          @ [(\<lparr>vx = time, vy = y\<rparr>,
                              Some \<lparr>pre = Some \<lparr>vx = 0.5, vy = 0\<rparr>,
                                    post = Some \<lparr>vx = 0.5, vy = 0\<rparr>\<rparr>)]
                          @ drop (insertionIndex time anchors) anchors))
           \<and> (anchors \<noteq> [] \<longrightarrow>
                (\<exists>anchors'. addAnchor_edges amount time value anchors = Inr anchors'
                   \<and> timeSorted anchors'))"
  proof (cases d)
    case (Inl e)
    then show ?thesis
      using addAnchor_raises [OF assms(3) [unfolded Inl]] by simp
  next
    case (Inr v)
    show ?thesis
    proof (cases v)
      case None
      note default = assms(3) [unfolded Inr None]
      show ?thesis
        unfolding Inr None sum.case option.case
        using addAnchor_no_value [OF default] addAnchor_edges_no_value [OF default]
        by simp
    next
      case (Some y)
      note default = assms(3) [unfolded Inr Some]
      show ?thesis
        unfolding Inr Some sum.case option.case
        using addAnchor_value [OF default] addAnchor_edges_value [OF default]
          spliced_sorted [OF assms(1,2)] addAnchor_edges_sorted [OF assms(1,2) _ default]
        by (intro conjI impI) simp_all
    qed
  qed
qed

text \<open>
  Time \<open>5\<close> into \<open>two\<close>, whose anchors are at the times \<open>0\<close> and \<open>10\<close>, with no
  value given: the sample of \<open>two\<close> at the time \<open>5\<close> is \<open>5\<close>. Time \<open>15\<close> into \<open>orphan\<close>,
  on which \<open>getValue\<close> raises a TypeError.
\<close>

theorem addAnchor_inserts_in_time_order_witness:
  "timeSorted two \<and> 5 \<notin> set (anchorTimes two)
   \<and> getValue 2 two 5 = Inr (Some 5)
   \<and> addAnchor 2 5 None two =
       Inr [two ! 0,
            (\<lparr>vx = 5, vy = 5\<rparr>, Some \<lparr>pre = Some \<lparr>vx = 0.5, vy = 0\<rparr>, post = Some \<lparr>vx = 0.5, vy = 0\<rparr>\<rparr>),
            two ! 1]
   \<and> timeSorted
       [two ! 0,
        (\<lparr>vx = 5, vy = 5\<rparr>, Some \<lparr>pre = Some \<lparr>vx = 0.5, vy = 0\<rparr>, post = Some \<lparr>vx = 0.5, vy = 0\<rparr>\<rparr>),
        two ! 1]
   \<and> addAnchor_edges 2 5 None two =
       Inr [two ! 0,
            (\<lparr>vx = 5, vy = 5\<rparr>, Some \<lparr>pre = Some \<lparr>vx = 0.5, vy = 0\<rparr>, post = Some \<lparr>vx = 0.5, vy = 0\<rparr>\<rparr>),
            two ! 1]
   \<and> timeSorted orphan \<and> 15 \<notin> set (anchorTimes orphan)
   \<and> getValue 2 orphan 15 = Inl TypeError
   \<and> addAnchor 2 15 None orphan = Inl TypeError
   \<and> addAnchor_edges 2 15 None orphan = Inl TypeError"
proof -
  have sorted: "timeSorted two" and fresh: "5 \<notin> set (anchorTimes two)"
    and k: "insertionIndex 5 two = 1"
    by (simp_all add: timeSorted_def anchorTimes_def two_def insertionIndex_def)
  have sampled: "getValue 2 two 5 = Inr (Some 5)"
    by (simp add: getValue_def absoluteAnchors_two getValueFromSegments_def segments_def
        lookupMapSegments_def List.map_filter_simps inRange_def createLookupMap_def
        samples_def cubic_def controlOf_def two_absolute_def upt_rec at_index_def
        power2_eq_square power3_eq_cube)
  then have default: "(case None of None \<Rightarrow> getValue 2 two 5 | Some v \<Rightarrow> Inr (Some v))
      = Inr (Some 5)"
    by simp
  have sorted': "timeSorted orphan" and fresh': "15 \<notin> set (anchorTimes orphan)"
    by (simp_all add: timeSorted_def anchorTimes_def orphan_def)
  have raised: "getValue 2 orphan 15 = Inl TypeError"
    by (simp add: getValue_def absoluteAnchors_def createIndexMemo_def absoluteAnchor_def
        controlOf_def upt_rec at_index_def orphan_def h05_def)
  then have default': "(case None of None \<Rightarrow> getValue 2 orphan 15 | Some v \<Rightarrow> Inr (Some v))
      = Inl TypeError"
    by simp
  note inserted = addAnchor_inserts_in_time_order [OF sorted fresh default, unfolded k]
  note refused = addAnchor_inserts_in_time_order [OF sorted' fresh' default']
  show ?thesis
    using inserted refused sorted fresh sampled sorted' fresh' raised
    by (simp add: two_def timeSorted_def anchorTimes_def)
qed

text \<open>
  The claim has \<open>addAnchor\<close> splice the new anchor in for every \<open>time\<close>, with handles
  on the sides that have a neighbour, and leave the anchors strictly increasing. On
  \<open>two\<close>: at time \<open>20\<close> \<open>addAnchor\<close> inserts nothing; at time \<open>0\<close>, the time of the
  first anchor, it inserts a second anchor at that time, and so does
  \<open>addAnchor_edges\<close> at time \<open>10\<close>; at time \<open>-5\<close> \<open>addAnchor\<close> gives the new first
  anchor a \<open>pre\<close> handle, which has no neighbour, and the deriver raises a TypeError on
  the store that results.
\<close>

theorem addAnchor_counterexample:
  "timeSorted two
   \<and> addAnchor 2 20 None two = Inr two
   \<and> addAnchor 2 0 None two =
       Inr [two ! 0,
            (\<lparr>vx = 0, vy = 0\<rparr>, Some \<lparr>pre = Some \<lparr>vx = 0.5, vy = 0\<rparr>, post = Some \<lparr>vx = 0.5, vy = 0\<rparr>\<rparr>),
            two ! 1]
   \<and> \<not> timeSorted
        [two ! 0,
         (\<lparr>vx = 0, vy = 0\<rparr>, Some \<lparr>pre = Some \<lparr>vx = 0.5, vy = 0\<rparr>, post = Some \<lparr>vx = 0.5, vy = 0\<rparr>\<rparr>),
         two ! 1]
   \<and> addAnchor_edges 2 10 None two =
       Inr [two ! 0,
            (\<lparr>vx = 10, vy = 10\<rparr>, Some \<lparr>pre = Some h05, post = Some \<lparr>vx = 0.5, vy = 0\<rparr>\<rparr>),
            (\<lparr>vx = 10, vy = 10\<rparr>, Some \<lparr>pre = Some \<lparr>vx = 0.5, vy = 0\<rparr>, post = None\<rparr>)]
   \<and> \<not> timeSorted
        [two ! 0,
         (\<lparr>vx = 10, vy = 10\<rparr>, Some \<lparr>pre = Some h05, post = Some \<lparr>vx = 0.5, vy = 0\<rparr>\<rparr>),
         (\<lparr>vx = 10, vy = 10\<rparr>, Some \<lparr>pre = Some \<lparr>vx = 0.5, vy = 0\<rparr>, post = None\<rparr>)]
   \<and> addAnchor 2 (-5) (Some 7) two =
       Inr [(\<lparr>vx = -5, vy = 7\<rparr>, Some \<lparr>pre = Some \<lparr>vx = 0.5, vy = 0\<rparr>, post = Some \<lparr>vx = 0.5, vy = 0\<rparr>\<rparr>),
            two ! 0, two ! 1]
   \<and> absoluteAnchors
        [(\<lparr>vx = -5, vy = 7\<rparr>, Some \<lparr>pre = Some \<lparr>vx = 0.5, vy = 0\<rparr>, post = Some \<lparr>vx = 0.5, vy = 0\<rparr>\<rparr>),
         two ! 0, two ! 1] = Inl TypeError"
proof -
  have sampled: "getValue 2 two 20 = Inr None" "getValue 2 two 0 = Inr (Some 0)"
    "getValue 2 two 10 = Inr (Some 10)"
    by (simp_all add: getValue_def absoluteAnchors_two getValueFromSegments_def segments_def
        lookupMapSegments_def List.map_filter_simps inRange_def createLookupMap_def
        samples_def cubic_def controlOf_def two_absolute_def upt_rec at_index_def
        power2_eq_square power3_eq_cube)
  have raised: "absoluteAnchors
        [(\<lparr>vx = -5, vy = 7\<rparr>, Some \<lparr>pre = Some \<lparr>vx = 0.5, vy = 0\<rparr>, post = Some \<lparr>vx = 0.5, vy = 0\<rparr>\<rparr>),
         two ! 0, two ! 1] = Inl TypeError"
    by (simp add: absoluteAnchors_def createIndexMemo_def absoluteAnchor_def controlOf_def
        upt_rec at_index_def two_def)
  show ?thesis
    using raised
    unfolding addAnchor_def addAnchor_edges_def option.case sampled
    by (simp add: spliceArray_def timeSorted_def anchorTimes_def withControl_def two_def
        h05_def at_index_def)
qed

section \<open>Properties of \<^verbatim>\<open>getValue\<close>\<close>

subsection \<open>The curve of a segment and the lookup at its two ends\<close>

lemma cubic_ends [simp]:
  "cubic p0 p1 p2 p3 0 = p0" "cubic p0 p1 p2 p3 1 = p3"
  by (simp_all add: cubic_def)

lemma cubic_above:
  assumes "0 < t" and "t \<le> 1" and "p0 \<le> p1" and "p0 \<le> p2" and "p0 < p3"
  shows "p0 < cubic p0 p1 p2 p3 t"
proof -
  have split: "cubic p0 p1 p2 p3 t - p0 =
      3 * (1 - t)\<^sup>2 * t * (p1 - p0) + 3 * (1 - t) * t\<^sup>2 * (p2 - p0) + t ^ 3 * (p3 - p0)"
    by (simp add: cubic_def power2_eq_square power3_eq_cube algebra_simps)
  have "0 \<le> 3 * (1 - t)\<^sup>2 * t * (p1 - p0)"
    using assms by simp
  moreover have "0 \<le> 3 * (1 - t) * t\<^sup>2 * (p2 - p0)"
    using assms by simp
  moreover have "0 < t ^ 3 * (p3 - p0)"
    using assms by simp
  ultimately show ?thesis
    using split by linarith
qed

lemma cubic_below:
  assumes "0 \<le> t" and "t < 1" and "p1 \<le> p3" and "p2 \<le> p3" and "p0 < p3"
  shows "cubic p0 p1 p2 p3 t < p3"
proof -
  have split: "p3 - cubic p0 p1 p2 p3 t =
      (1 - t) ^ 3 * (p3 - p0) + 3 * (1 - t)\<^sup>2 * t * (p3 - p1) + 3 * (1 - t) * t\<^sup>2 * (p3 - p2)"
    by (simp add: cubic_def power2_eq_square power3_eq_cube algebra_simps)
  have "0 < (1 - t) ^ 3 * (p3 - p0)"
    using assms by simp
  moreover have "0 \<le> 3 * (1 - t)\<^sup>2 * t * (p3 - p1)"
    using assms by simp
  moreover have "0 \<le> 3 * (1 - t) * t\<^sup>2 * (p3 - p2)"
    using assms by simp
  ultimately show ?thesis
    using split by linarith
qed

lemma lookup_first:
  assumes "x0 < x1"
  shows "lookup ((x0, y0) # (x1, y1) # m) x0 = Some y0"
  using assms by simp

lemma lookup_last:
  assumes "m \<noteq> []" and "\<forall>s\<in>set m. fst s < X"
  shows "lookup (m @ [(X, Y)]) X = Some Y"
  using assms
proof (induction m)
  case Nil
  then show ?case by simp
next
  case (Cons s m)
  obtain x y where s: "s = (x, y)"
    by (cases s)
  show ?case
  proof (cases m)
    case Nil
    then show ?thesis
      using Cons.prems s by simp
  next
    case (Cons s' m')
    obtain x' y' where s': "s' = (x', y')"
      by (cases s')
    have "x' < X"
      using Cons.prems(2) Cons s' by simp
    then have "lookup (s # m @ [(X, Y)]) X = lookup (m @ [(X, Y)]) X"
      using s s' Cons by simp
    then show ?thesis
      using Cons.IH Cons.prems(2) Cons by simp
  qed
qed

lemma upt_first_two:
  assumes "1 \<le> n"
  shows "[0..<Suc n] = 0 # 1 # [2..<Suc n]"
  using assms by (simp add: upt_rec numeral_2_eq_2)

lemma linear_ends [simp]:
  "linear p0 p3 0 = p0" "linear p0 p3 1 = p3"
  by (simp_all add: linear_def)

lemma linear_above:
  assumes "0 < t" and "p0 < p3"
  shows "p0 < linear p0 p3 t"
proof -
  have "linear p0 p3 t - p0 = t * (p3 - p0)"
    by (simp add: linear_def algebra_simps)
  moreover have "0 < t * (p3 - p0)"
    using assms by simp
  ultimately show ?thesis
    by linarith
qed

lemma linear_below:
  assumes "t < 1" and "p0 < p3"
  shows "linear p0 p3 t < p3"
proof -
  have "p3 - linear p0 p3 t = (1 - t) * (p3 - p0)"
    by (simp add: linear_def algebra_simps)
  moreover have "0 < (1 - t) * (p3 - p0)"
    using assms by simp
  ultimately show ?thesis
    by linarith
qed

text \<open>
  The samples of a curve whose \<open>x\<close> starts at \<open>x0\<close>, ends at \<open>x1\<close> and lies strictly
  between the two in between: the lookup at \<open>x0\<close> and at \<open>x1\<close> gives the first and the
  last sample.
\<close>

lemma samples_ends:
  assumes amount: "1 \<le> amount"
    and X: "X 0 = xa" "X 1 = xb"
    and Y: "Y 0 = ya" "Y 1 = yb"
    and above: "\<And>t. 0 < t \<Longrightarrow> t \<le> 1 \<Longrightarrow> xa < X t"
    and below: "\<And>t. 0 \<le> t \<Longrightarrow> t < 1 \<Longrightarrow> X t < xb"
  shows "lookup (samples amount X Y) xa = Some ya"
    and "lookup (samples amount X Y) xb = Some yb"
proof -
  define g where "g k = (X (real k / real amount), Y (real k / real amount))" for k
  have m: "samples amount X Y = map g [0..<Suc amount]"
    by (simp add: samples_def g_def)
  have g0: "g 0 = (xa, ya)"
    by (simp add: g_def X Y)
  have gn: "g amount = (xb, yb)"
    using amount by (simp add: g_def X Y)
  have "0 < 1 / real amount" "1 / real amount \<le> 1"
    using amount by simp_all
  from above [OF this]
  have g1: "xa < fst (g 1)"
    by (simp add: g_def)
  have "map g [0..<Suc amount] = g 0 # g 1 # map g [2..<Suc amount]"
    by (simp only: upt_first_two [OF amount] list.map)
  then show "lookup (samples amount X Y) xa = Some ya"
    using g1 by (cases "g 1") (simp add: g0 m)
  have before: "\<forall>s\<in>set (map g [0..<amount]). fst s < xb"
  proof
    fix s
    assume "s \<in> set (map g [0..<amount])"
    then obtain k where k: "k < amount" "s = g k"
      by auto
    then have "0 \<le> real k / real amount" "real k / real amount < 1"
      by simp_all
    from below [OF this] show "fst s < xb"
      by (simp add: k g_def)
  qed
  have "map g [0..<amount] \<noteq> []"
    using amount by simp
  from lookup_last [OF this before, of yb]
  show "lookup (samples amount X Y) xb = Some yb"
    by (simp add: gn m)
qed

lemma createLookupMap_ends:
  assumes amount: "1 \<le> amount"
    and order: "vx (fst a) < vx (fst b)"
    and p1: "\<And>p. controlOf (snd a) Post = Some p \<Longrightarrow> vx (fst a) \<le> vx p \<and> vx p \<le> vx (fst b)"
    and p2: "\<And>p. controlOf (snd b) Pre = Some p \<Longrightarrow> vx (fst a) \<le> vx p \<and> vx p \<le> vx (fst b)"
  shows "lookup (createLookupMap amount a b) (vx (fst a)) = Some (vy (fst a))"
    and "lookup (createLookupMap amount a b) (vx (fst b)) = Some (vy (fst b))"
proof -
  let ?X = "linear (vx (fst a)) (vx (fst b))" and ?Y = "linear (vy (fst a)) (vy (fst b))"
  have above: "vx (fst a) < ?X t" if "0 < t" "t \<le> 1" for t
    by (rule linear_above [OF that(1) order])
  have below: "?X t < vx (fst b)" if "0 \<le> t" "t < 1" for t
    by (rule linear_below [OF that(2) order])
  have straight: "lookup (samples amount ?X ?Y) (vx (fst a)) = Some (vy (fst a))"
    "lookup (samples amount ?X ?Y) (vx (fst b)) = Some (vy (fst b))"
    using samples_ends [OF amount _ _ _ _ above below,
        where Y = ?Y and ya = "vy (fst a)" and yb = "vy (fst b)"]
    by simp_all
  have curved: "lookup (createLookupMap amount a b) (vx (fst a)) = Some (vy (fst a))
      \<and> lookup (createLookupMap amount a b) (vx (fst b)) = Some (vy (fst b))"
    if h1: "controlOf (snd a) Post = Some h1" and h2: "controlOf (snd b) Pre = Some h2"
    for h1 h2
  proof -
    let ?X = "cubic (vx (fst a)) (vx h1) (vx h2) (vx (fst b))"
    let ?Y = "cubic (vy (fst a)) (vy h1) (vy h2) (vy (fst b))"
    note b1 = p1 [OF h1] and b2 = p2 [OF h2]
    have above: "vx (fst a) < ?X t" if "0 < t" "t \<le> 1" for t
      using cubic_above [OF that, of "vx (fst a)" "vx h1" "vx h2" "vx (fst b)"] b1 b2 order
      by simp
    have below: "?X t < vx (fst b)" if "0 \<le> t" "t < 1" for t
      using cubic_below [OF that, of "vx h1" "vx (fst b)" "vx h2" "vx (fst a)"] b1 b2 order
      by simp
    have "lookup (samples amount ?X ?Y) (vx (fst a)) = Some (vy (fst a))"
      "lookup (samples amount ?X ?Y) (vx (fst b)) = Some (vy (fst b))"
      using samples_ends [OF amount _ _ _ _ above below,
        where Y = ?Y and ya = "vy (fst a)" and yb = "vy (fst b)"]
      by simp_all
    then show ?thesis
      by (simp add: createLookupMap_def h1 h2)
  qed
  show "lookup (createLookupMap amount a b) (vx (fst a)) = Some (vy (fst a))"
    and "lookup (createLookupMap amount a b) (vx (fst b)) = Some (vy (fst b))"
    using straight curved
    by (cases "controlOf (snd a) Post"; cases "controlOf (snd b) Pre";
        simp add: createLookupMap_def)+
qed

subsection \<open>The segments of a valid store\<close>

lemma handle_within:
  fixes p n rx :: real
  assumes "p < n" and "0 \<le> rx" and "rx \<le> 1"
  shows "p \<le> p + (n - p) * rx" and "p + (n - p) * rx \<le> n"
    and "p \<le> n + (n - p) * (- rx)" and "n + (n - p) * (- rx) \<le> n"
proof -
  have "0 \<le> (n - p) * rx"
    using assms by simp
  moreover have "(n - p) * rx \<le> n - p"
    using assms by (simp add: mult_left_le)
  ultimately show "p \<le> p + (n - p) * rx" and "p + (n - p) * rx \<le> n"
    and "p \<le> n + (n - p) * (- rx)" and "n + (n - p) * (- rx) \<le> n"
    by simp_all
qed

lemma handlesValid_nth:
  assumes "handlesValid anchors" and "i < length anchors"
  shows "handleValid (controlOf (snd (anchors ! i)) Pre) (0 < i)"
    and "handleValid (controlOf (snd (anchors ! i)) Post) (Suc i < length anchors)"
  using assms by (simp_all add: handlesValid_def)

text \<open>
  The absolute anchor the deriver gives at index \<open>i\<close> of a valid store in time
  order: the handles it has lie between the anchor and its neighbour.
\<close>

lemma absoluteAnchor_valid:
  assumes sorted: "timeSorted anchors" and valid: "handlesValid anchors"
    and i: "i < length anchors"
  shows "\<exists>c. absoluteAnchor anchors (anchors ! i) (int i) = Inr (fst (anchors ! i), Some c)
    \<and> (\<forall>p. post c = Some p \<longrightarrow>
          Suc i < length anchors
          \<and> vx (fst (anchors ! i)) \<le> vx p \<and> vx p \<le> vx (fst (anchors ! Suc i)))
    \<and> (\<forall>p. pre c = Some p \<longrightarrow>
          0 < i \<and> vx (fst (anchors ! (i - 1))) \<le> vx p \<and> vx p \<le> vx (fst (anchors ! i)))"
proof -
  obtain position controls where a: "anchors ! i = (position, controls)"
    by (cases "anchors ! i")
  note v = handlesValid_nth [OF valid i, unfolded a snd_conv]
  note at = at_index_neighbours [OF i]
  have pre_ok: "controlOf controls Pre \<noteq> None \<longrightarrow> at_index anchors (int i - 1) \<noteq> None"
    using v(1) by (auto simp: handleValid_def at split: option.splits)
  have post_ok: "controlOf controls Post \<noteq> None \<longrightarrow> at_index anchors (int i + 1) \<noteq> None"
    using v(2) by (auto simp: handleValid_def at split: option.splits)
  note resolved = absoluteAnchor_value [OF pre_ok post_ok, of position, unfolded at]
  have after: "vx position \<le> vx position + (vx (fst (anchors ! Suc i)) - vx position) * vx r
      \<and> vx position + (vx (fst (anchors ! Suc i)) - vx position) * vx r
          \<le> vx (fst (anchors ! Suc i))"
    if "Suc i < length anchors" "0 \<le> vx r" "vx r \<le> 1" for r :: Vector
    using handle_within(1,2) [OF _ that(2,3), of "vx position" "vx (fst (anchors ! Suc i))"]
      timeSorted_nth [OF sorted _ that(1), of i] a
    by simp
  have before: "vx (fst (anchors ! (i - 1)))
        \<le> vx position + (vx position - vx (fst (anchors ! (i - 1)))) * (- vx r)
      \<and> vx position + (vx position - vx (fst (anchors ! (i - 1)))) * (- vx r) \<le> vx position"
    if "0 < i" "0 \<le> vx r" "vx r \<le> 1" for r :: Vector
    using handle_within(3,4) [OF _ that(2,3), of "vx (fst (anchors ! (i - 1)))" "vx position"]
      timeSorted_nth [OF sorted _ i, of "i - 1"] a that(1)
    by simp
  show ?thesis
    unfolding a fst_conv snd_conv resolved
    using v after before
    by (auto simp: handleValid_def addVector_def split: option.splits prod.splits if_splits)
qed

lemma sequence_all_Inr:
  assumes "\<forall>r\<in>set rs. \<exists>v. r = Inr v"
  shows "\<exists>vs. sequence rs = Inr vs"
  using assms by (induction rs) auto

lemma absoluteAnchors_valid:
  assumes "timeSorted anchors" and "handlesValid anchors"
  shows "\<exists>absAnchors. absoluteAnchors anchors = Inr absAnchors"
proof -
  have "\<exists>v. absoluteAnchor anchors (anchors ! i) (int i) = Inr v" if "i < length anchors" for i
    using absoluteAnchor_valid [OF assms that] by blast
  then have "\<forall>r\<in>set (map (\<lambda>i. absoluteAnchor anchors (anchors ! i) (int i)) [0..<length anchors]).
      \<exists>v. r = Inr v"
    by auto
  from sequence_all_Inr [OF this] show ?thesis
    by (simp add: absoluteAnchors_def createIndexMemo_def)
qed

lemma map_filter_all_Some:
  assumes "\<forall>x\<in>set xs. h x = Some (g x)"
  shows "List.map_filter (\<lambda>s. s) (map h xs) = map g xs"
  using assms by (induction xs) (simp_all add: List.map_filter_simps)

lemma butlast_upt_0: "butlast [0..<n] = [0..<n - 1]"
  by (cases n) simp_all

lemma segments_value:
  "segments amount absAnchors =
     map (\<lambda>i. \<lparr>segment_range = (vx (fst (absAnchors ! i)), vx (fst (absAnchors ! Suc i))),
                segment_map = createLookupMap amount (absAnchors ! i) (absAnchors ! Suc i)\<rparr>)
         [0..<length absAnchors - 1]"
proof -
  let ?h = "\<lambda>i. case at_index absAnchors (int i + 1) of
                 None \<Rightarrow> None
               | Some next \<Rightarrow>
                   Some \<lparr>segment_range = (vx (fst (absAnchors ! i)), vx (fst next)),
                         segment_map = createLookupMap amount (absAnchors ! i) next\<rparr>"
  have "butlast (lookupMapSegments amount absAnchors) = map ?h [0..<length absAnchors - 1]"
    by (simp add: lookupMapSegments_def map_butlast [symmetric] butlast_upt_0)
  moreover have "\<forall>i\<in>set [0..<length absAnchors - 1].
      ?h i = Some \<lparr>segment_range = (vx (fst (absAnchors ! i)), vx (fst (absAnchors ! Suc i))),
                segment_map = createLookupMap amount (absAnchors ! i) (absAnchors ! Suc i)\<rparr>"
    by (auto simp: at_index_def nat_add_distrib)
  ultimately show ?thesis
    using map_filter_all_Some [OF \<open>\<forall>i\<in>set [0..<length absAnchors - 1]. _\<close>]
    by (simp add: segments_def)
qed

text \<open>Every segment whose range contains the time of an anchor has the value of that anchor there.\<close>

lemma segment_at_anchor:
  assumes amount: "1 \<le> amount" and sorted: "timeSorted anchors" and valid: "handlesValid anchors"
    and derived: "absoluteAnchors anchors = Inr absAnchors"
    and i: "Suc i < length anchors" and j: "j < length anchors"
    and inside: "vx (fst (anchors ! i)) \<le> vx (fst (anchors ! j))"
      "vx (fst (anchors ! j)) \<le> vx (fst (anchors ! Suc i))"
  shows "lookup (createLookupMap amount (absAnchors ! i) (absAnchors ! Suc i))
      (vx (fst (anchors ! j))) = Some (vy (fst (anchors ! j)))"
proof -
  have ij: "j = i \<or> j = Suc i"
  proof (rule ccontr)
    assume "\<not> (j = i \<or> j = Suc i)"
    then consider "j < i" | "Suc i < j"
      by linarith
    then show False
    proof cases
      case 1
      from timeSorted_nth [OF sorted 1] i inside(1) show False
        by simp
    next
      case 2
      from timeSorted_nth [OF sorted 2 j] inside(2) show False
        by simp
    qed
  qed
  have order: "vx (fst (anchors ! i)) < vx (fst (anchors ! Suc i))"
    using timeSorted_nth [OF sorted _ i, of i] by simp
  have i': "i < length anchors"
    using i by simp
  from absoluteAnchor_valid [OF sorted valid i']
  obtain c where c: "absoluteAnchor anchors (anchors ! i) (int i) = Inr (fst (anchors ! i), Some c)"
    and c_post: "\<forall>p. post c = Some p \<longrightarrow>
          Suc i < length anchors
          \<and> vx (fst (anchors ! i)) \<le> vx p \<and> vx p \<le> vx (fst (anchors ! Suc i))"
    by blast
  have a: "absAnchors ! i = (fst (anchors ! i), Some c)"
    using absoluteAnchors_nth(2) [OF derived i'] c by simp
  from absoluteAnchor_valid [OF sorted valid i]
  obtain c' where c': "absoluteAnchor anchors (anchors ! Suc i) (int (Suc i))
        = Inr (fst (anchors ! Suc i), Some c')"
    and c_pre: "\<forall>p. pre c' = Some p \<longrightarrow>
          0 < Suc i \<and> vx (fst (anchors ! (Suc i - 1))) \<le> vx p
          \<and> vx p \<le> vx (fst (anchors ! Suc i))"
    by blast
  have b: "absAnchors ! Suc i = (fst (anchors ! Suc i), Some c')"
    using absoluteAnchors_nth(2) [OF derived i] c' by simp
  have o: "vx (fst (absAnchors ! i)) < vx (fst (absAnchors ! Suc i))"
    using order by (simp add: a b)
  have b1: "vx (fst (absAnchors ! i)) \<le> vx p \<and> vx p \<le> vx (fst (absAnchors ! Suc i))"
    if "controlOf (snd (absAnchors ! i)) Post = Some p" for p
    using that c_post by (simp add: a b controlOf_def)
  have b2: "vx (fst (absAnchors ! i)) \<le> vx p \<and> vx p \<le> vx (fst (absAnchors ! Suc i))"
    if "controlOf (snd (absAnchors ! Suc i)) Pre = Some p" for p
    using that c_pre by (simp add: a b controlOf_def)
  from createLookupMap_ends [OF amount o b1 b2] ij show ?thesis
    by (auto simp: a b)
qed

lemma absoluteAnchors_three: "absoluteAnchors three = Inr three_absolute"
  by (simp add: absoluteAnchors_def createIndexMemo_def three_def three_absolute_def
      absoluteAnchor_def controlOf_def addVector_def h05_def upt_rec at_index_def)

lemma absoluteAnchors_overshoot: "absoluteAnchors overshoot = Inr overshoot_absolute"
  by (simp add: absoluteAnchors_def createIndexMemo_def overshoot_def overshoot_absolute_def
      absoluteAnchor_def controlOf_def addVector_def h05_def upt_rec at_index_def)

text \<open>
  The scenario of the spec for a store without handles: the anchors \<open>(0, 0)\<close> and
  \<open>(10, 10)\<close> have the value \<open>5\<close> at the time \<open>5\<close>.
\<close>

lemma getValue_bare: "getValue 2 bare 5 = Inr (Some 5)"
  by (simp add: getValue_def absoluteAnchors_def createIndexMemo_def absoluteAnchor_def
      controlOf_def upt_rec at_index_def segments_def lookupMapSegments_def
      List.map_filter_simps getValueFromSegments_def inRange_def createLookupMap_def
      samples_def linear_def bare_def)

text \<open>
  Claim C1, on the sampler as the spec describes it. Let the store be in time
  order with at least two anchors, let each descriptor it has be one of the data
  model (with the neighbour it is relative to, and with its relative \<open>x\<close> in
  \<open>[0, 1]\<close>), and let the sample count be positive. For every anchor \<open>a\<close>, \<open>getValue\<close> at
  \<open>a.position.x\<close> returns exactly \<open>a.position.y\<close>. Some segment contains that time in
  its closed range, and the lookup map of every segment that does has the value
  \<open>a.position.y\<close> there: at the start of a segment the first two samples bracket the
  time, at its end the last two do, and the interpolation gives the sample itself.
  The value therefore does not depend on which of the segments that contain the time
  is taken.
\<close>

theorem getValue_at_anchor:
  assumes amount: "1 \<le> amount" and sorted: "timeSorted anchors" and valid: "handlesValid anchors"
    and two: "2 \<le> length anchors" and a: "a \<in> set anchors"
  shows "getValue amount anchors (vx (fst a)) = Inr (Some (vy (fst a)))
    \<and> (\<exists>absAnchors. absoluteAnchors anchors = Inr absAnchors
         \<and> (\<exists>s\<in>set (segments amount absAnchors). inRange s (vx (fst a)))
         \<and> (\<forall>s\<in>set (segments amount absAnchors). inRange s (vx (fst a)) \<longrightarrow>
               lookup (segment_map s) (vx (fst a)) = Some (vy (fst a))))"
proof -
  obtain absAnchors where derived: "absoluteAnchors anchors = Inr absAnchors"
    using absoluteAnchors_valid [OF sorted valid] by blast
  obtain j where j: "j < length anchors" "a = anchors ! j"
    using a by (auto simp: in_set_conv_nth)
  have len: "length absAnchors = length anchors"
    by (rule absoluteAnchors_nth(1) [OF derived])
  have positions: "fst (absAnchors ! i) = fst (anchors ! i)" if "i < length anchors" for i
    using absoluteAnchors_nth(2) [OF derived that] absoluteAnchor_Inr(1) [of anchors "fst (anchors ! i)"
        "snd (anchors ! i)" "int i" "absAnchors ! i"]
    by simp
  let ?seg = "\<lambda>i. \<lparr>segment_range = (vx (fst (absAnchors ! i)), vx (fst (absAnchors ! Suc i))),
                segment_map = createLookupMap amount (absAnchors ! i) (absAnchors ! Suc i)\<rparr>"
  have segs: "segments amount absAnchors = map ?seg [0..<length anchors - 1]"
    by (simp add: segments_value len)
  have all: "\<forall>s\<in>set (segments amount absAnchors). inRange s (vx (fst a)) \<longrightarrow>
      lookup (segment_map s) (vx (fst a)) = Some (vy (fst a))"
  proof (intro ballI impI)
    fix s
    assume "s \<in> set (segments amount absAnchors)" and inside: "inRange s (vx (fst a))"
    then obtain i where "i < length anchors - 1" and s: "s = ?seg i"
      unfolding segs by auto
    then have i: "Suc i < length anchors" "s = ?seg i"
      by simp_all
    have "vx (fst (anchors ! i)) \<le> vx (fst (anchors ! j))"
      "vx (fst (anchors ! j)) \<le> vx (fst (anchors ! Suc i))"
      using inside i j positions [of i] positions [of "Suc i"] by (simp_all add: inRange_def)
    from segment_at_anchor [OF amount sorted valid derived i(1) j(1) this]
    show "lookup (segment_map s) (vx (fst a)) = Some (vy (fst a))"
      by (simp add: i j)
  qed
  define k where "k = (if j = 0 then 0 else j - 1)"
  have k: "Suc k < length anchors" "k = j \<or> Suc k = j"
    using j two by (auto simp: k_def)
  have "vx (fst (anchors ! k)) \<le> vx (fst (anchors ! j))"
    "vx (fst (anchors ! j)) \<le> vx (fst (anchors ! Suc k))"
    using k timeSorted_nth [OF sorted, of k "Suc k"] by auto
  then have "inRange (?seg k) (vx (fst a))"
    using k(1) j positions [of k] positions [of "Suc k"] by (simp add: inRange_def)
  moreover have "?seg k \<in> set (segments amount absAnchors)"
    unfolding segs using k(1) by auto
  ultimately have some: "\<exists>s\<in>set (segments amount absAnchors). inRange s (vx (fst a))"
    by blast
  then obtain s where found: "find (\<lambda>s. inRange s (vx (fst a))) (segments amount absAnchors) = Some s"
    by (cases "find (\<lambda>s. inRange s (vx (fst a))) (segments amount absAnchors)")
      (auto simp: find_None_iff)
  then have "s \<in> set (segments amount absAnchors)" "inRange s (vx (fst a))"
    by (auto simp: find_Some_iff)
  with all have "lookup (segment_map s) (vx (fst a)) = Some (vy (fst a))"
    by blast
  then have "getValue amount anchors (vx (fst a)) = Inr (Some (vy (fst a)))"
    using derived found by (simp add: getValue_def getValueFromSegments_def)
  then show ?thesis
    using derived some all by blast
qed

text \<open>
  The middle anchor of \<open>three\<close>, whose handles are all there, and the middle anchor
  of \<open>close\<close>, which has no handle, with two samples a segment.
\<close>

theorem getValue_at_anchor_witness:
  "1 \<le> (2::nat) \<and> timeSorted three \<and> handlesValid three \<and> 2 \<le> length three
   \<and> three ! 1 \<in> set three
   \<and> getValue 2 three 10 = Inr (Some 10)
   \<and> timeSorted close \<and> handlesValid close \<and> 2 \<le> length close
   \<and> close ! 1 \<in> set close
   \<and> getValue 2 close (1 / 2) = Inr (Some 0)"
proof -
  have amount: "1 \<le> (2::nat)" and sorted: "timeSorted three" and len: "2 \<le> length three"
    and a: "three ! 1 \<in> set three"
    by (simp_all add: timeSorted_def anchorTimes_def three_def)
  have valid: "handlesValid three"
    by (simp add: handlesValid_def handleValid_def controlOf_def three_def h05_def
        All_less_Suc)
  have sorted': "timeSorted close" and len': "2 \<le> length close"
    and a': "close ! 1 \<in> set close"
    by (simp_all add: timeSorted_def anchorTimes_def close_def)
  have valid': "handlesValid close"
    by (simp add: handlesValid_def handleValid_def controlOf_def close_def All_less_Suc)
  have "fst (three ! 1) = \<lparr>vx = 10, vy = 10\<rparr>" "fst (close ! 1) = \<lparr>vx = 1 / 2, vy = 0\<rparr>"
    by (simp_all add: three_def close_def)
  then show ?thesis
    using getValue_at_anchor [OF amount sorted valid len a]
      getValue_at_anchor [OF amount sorted' valid' len' a']
      amount sorted valid len a sorted' valid' len' a'
    by simp
qed

text \<open>
  The claim has \<open>getValue\<close> locate the unique segment whose range contains the
  time, in every store that is in time order. The ranges that \<open>lookupMapSegments\<close>
  builds share their end points: on \<open>three\<close> they are \<open>[0, 10]\<close> and \<open>[10, 20]\<close>, and
  the time \<open>10\<close> of the middle anchor lies in both. The store \<open>orphan\<close> is in time
  order, and its first anchor has a \<open>pre\<close> descriptor, which has no neighbour: the
  deriver raises a TypeError, and so does \<open>getValue\<close>. The store \<open>overshoot\<close> is in
  time order, and the \<open>post\<close> descriptor of its first anchor has the relative \<open>x = -1\<close>:
  the absolute handle is at \<open>x = -10\<close>, before the anchor, the samples of the one
  segment are at \<open>x = 0\<close>, \<open>-0.625\<close> and \<open>10\<close>, and the value at the time \<open>0\<close> of the
  first anchor is interpolated between the second sample and the third, \<open>138 / 17\<close>
  and not \<open>0\<close>.
\<close>

theorem getValue_segment_not_unique:
  "timeSorted three
   \<and> absoluteAnchors three = Inr three_absolute
   \<and> map segment_range (segments 1 three_absolute) = [(0, 10), (10, 20)]
   \<and> inRange (segments 1 three_absolute ! 0) 10
   \<and> inRange (segments 1 three_absolute ! 1) 10
   \<and> timeSorted orphan \<and> 2 \<le> length orphan
   \<and> absoluteAnchors orphan = Inl TypeError
   \<and> getValue 2 orphan 10 = Inl TypeError
   \<and> timeSorted overshoot \<and> 2 \<le> length overshoot
   \<and> absoluteAnchors overshoot = Inr overshoot_absolute
   \<and> segment_map (segments 2 overshoot_absolute ! 0) = [(0, 0), (- (5 / 8), 8), (10, 10)]
   \<and> getValue 2 overshoot 0 = Inr (Some (138 / 17))"
proof -
  have ranges: "timeSorted three
      \<and> map segment_range (segments 1 three_absolute) = [(0, 10), (10, 20)]
      \<and> inRange (segments 1 three_absolute ! 0) 10
      \<and> inRange (segments 1 three_absolute ! 1) 10"
    by (simp add: timeSorted_def anchorTimes_def segments_def lookupMapSegments_def inRange_def
        List.map_filter_simps three_def three_absolute_def upt_rec at_index_def)
  have raised: "timeSorted orphan \<and> 2 \<le> length orphan
      \<and> absoluteAnchors orphan = Inl TypeError \<and> getValue 2 orphan 10 = Inl TypeError"
    by (simp add: timeSorted_def anchorTimes_def getValue_def absoluteAnchors_def
        createIndexMemo_def absoluteAnchor_def controlOf_def upt_rec at_index_def
        orphan_def h05_def)
  have sorted: "timeSorted overshoot \<and> 2 \<le> length overshoot"
    by (simp add: timeSorted_def anchorTimes_def overshoot_def)
  have sampled: "segment_map (segments 2 overshoot_absolute ! 0)
      = [(0, 0), (- (5 / 8), 8), (10, 10)]"
    by (simp add: segments_def lookupMapSegments_def List.map_filter_simps
        createLookupMap_def samples_def cubic_def controlOf_def overshoot_absolute_def
        upt_rec at_index_def power2_eq_square power3_eq_cube)
  have ranged: "find (\<lambda>s. inRange s 0) (segments 2 overshoot_absolute)
      = Some (segments 2 overshoot_absolute ! 0)"
    by (simp add: segments_def lookupMapSegments_def List.map_filter_simps inRange_def
        overshoot_absolute_def upt_rec at_index_def)
  have "getValue 2 overshoot 0 = Inr (Some (138 / 17))"
    by (simp add: getValue_def absoluteAnchors_overshoot getValueFromSegments_def ranged sampled)
  then show ?thesis
    using ranges raised sorted sampled absoluteAnchors_three absoluteAnchors_overshoot
    by simp
qed

end
